theory Spec2Isabelle
  imports Main "HOL-Library.Multiset"
begin

section \<open>Stock and price synchronisation for two marketplaces (seller.py, market.py)\<close>

text \<open>
  The two modules read a list of inventory rows, reconcile it with the offer identifiers a
  marketplace knows, and push stock and price updates in batches. Python text is modelled
  as \<^typ>\<open>string\<close> holding the UTF-8 bytes of the text: the operations the code applies
  (equality, membership, splitting at \<open>.\<close>, deleting what is not one of \<open>0\<close>..\<open>9\<close>) look
  at ASCII characters only, and UTF-8 encodes every other code point with bytes from 128
  up, so the byte view and the code-point view agree on them. The exception is \<open>int\<close>,
  whose reading of text beyond ASCII is left to the interpreter. Python integers are
  \<^typ>\<open>int\<close>. An exception is a value of \<open>error\<close>, and a function that can raise
  returns \<open>error + 'a\<close>.

  The model follows the text of the functions. As shipped, market.py does not compile: the
  docstring of its \<open>update_stocks\<close> is indented by five spaces and the body by four. The
  requests that \<open>update_stocks\<close> would make are an argument of the model.
\<close>

subsection \<open>Exceptions\<close>

text \<open>
  \<open>ReadTimeout\<close> and \<open>ConnectionError\<close> are the two classes of \<open>requests.exceptions\<close> that
  \<open>main\<close> names; \<open>HTTPError\<close> is what \<open>raise_for_status\<close> raises; \<open>ValueError\<close> comes from
  \<open>int\<close> and \<open>range\<close>, \<open>IndexError\<close> from indexing a list.
\<close>

datatype error = ReadTimeout | ConnectionError | HTTPError | ValueError | IndexError

subsection \<open>Builtins on text\<close>

definition is_digit :: "char \<Rightarrow> bool" where
  "is_digit c = (c \<in> set ''0123456789'')"

definition digit_value :: "char \<Rightarrow> nat" where
  "digit_value c = of_char c - 48"

text \<open>\<open>s.split(sep)\<close> for a separator of one character; \<open>cur\<close> is the field being read.\<close>

fun split_from :: "char \<Rightarrow> string \<Rightarrow> string \<Rightarrow> string list" where
  "split_from sep cur [] = [cur]"
| "split_from sep cur (c # cs) =
     (if c = sep then cur # split_from sep [] cs else split_from sep (cur @ [c]) cs)"

definition py_split :: "char \<Rightarrow> string \<Rightarrow> string list" where
  "py_split sep s = split_from sep [] s"

text \<open>\<open>re.sub("[^0-9]", "", s)\<close>: every character outside \<open>0\<close>..\<open>9\<close> is replaced by nothing.\<close>

fun re_sub_non_digits :: "string \<Rightarrow> string" where
  "re_sub_non_digits [] = []"
| "re_sub_non_digits (c # cs) =
     (if is_digit c then c # re_sub_non_digits cs else re_sub_non_digits cs)"

text \<open>
  What \<open>int\<close> does on text depends on the interpreter in two ways, and both are arguments
  of the model: the limit on the number of digits (\<open>sys.get_int_max_str_digits()\<close>, 0 for
  no limit and on versions without one), and the reading of text with a character beyond
  ASCII, which goes through the interpreter's Unicode tables (they make further white space
  and further decimal digits acceptable).
\<close>

record interpreter =
  max_str_digits :: nat
  int_beyond_ascii :: "string \<Rightarrow> int option"

definition is_ascii :: "char \<Rightarrow> bool" where
  "is_ascii c = ((of_char c :: nat) < 128)"

text \<open>
  \<open>int(s)\<close> on ASCII text, base ten, as \<open>PyLong_FromString\<close> reads it: white space (tab,
  line feed, vertical tab, form feed, carriage return, space) is skipped on both sides, one
  sign may lead, and the rest is decimal digits in which a single underscore may stand
  between two digits. More than 640 digits are compared with the limit, when there is one.
  Anything else raises ValueError (\<open>None\<close> here).
\<close>

definition py_isspace :: "char \<Rightarrow> bool" where
  "py_isspace c =
     (c \<in> set [CHR 0x09, CHR 0x0A, CHR 0x0B, CHR 0x0C, CHR 0x0D, CHR 0x20])"

definition py_strip :: "string \<Rightarrow> string" where
  "py_strip s = rev (dropWhile py_isspace (rev (dropWhile py_isspace s)))"

fun parse_digits :: "bool \<Rightarrow> nat \<Rightarrow> string \<Rightarrow> nat option" where
  "parse_digits after_digit acc [] = (if after_digit then Some acc else None)"
| "parse_digits after_digit acc (c # cs) =
     (if is_digit c then parse_digits True (10 * acc + digit_value c) cs
      else if c = CHR ''_'' \<and> after_digit then parse_digits False acc cs
      else None)"

definition over_limit :: "nat \<Rightarrow> nat \<Rightarrow> bool" where
  "over_limit limit digits = (640 < digits \<and> 0 < limit \<and> limit < digits)"

definition unsigned_int :: "nat \<Rightarrow> string \<Rightarrow> nat option" where
  "unsigned_int limit body =
     (case parse_digits False 0 body of
        None \<Rightarrow> None
      | Some n \<Rightarrow> if over_limit limit (length (filter is_digit body)) then None else Some n)"

definition ascii_int :: "nat \<Rightarrow> string \<Rightarrow> int option" where
  "ascii_int limit s =
     (case py_strip s of
        [] \<Rightarrow> None
      | c # cs \<Rightarrow>
          if c = CHR ''-'' then map_option (\<lambda>n. - int n) (unsigned_int limit cs)
          else if c = CHR ''+'' then map_option int (unsigned_int limit cs)
          else map_option int (unsigned_int limit (c # cs)))"

definition py_int :: "interpreter \<Rightarrow> string \<Rightarrow> int option" where
  "py_int py s =
     (if list_all is_ascii s then ascii_int (max_str_digits py) s else int_beyond_ascii py s)"

subsection \<open>seller.price_conversion\<close>

text \<open>
  \<^verbatim>\<open>return re.sub("[^0-9]", "", price.split(".")[0])\<close>
  Indexing the list of fields at 0 raises IndexError on an empty list; the model keeps
  that branch.
\<close>

definition price_conversion :: "string \<Rightarrow> error + string" where
  "price_conversion price =
     (case py_split (CHR ''.'') price of
        [] \<Rightarrow> Inl IndexError
      | field # _ \<Rightarrow> Inr (re_sub_non_digits field))"

text \<open>The specification's wording: the text before the first decimal point, digits only.\<close>

definition before_first_point :: "string \<Rightarrow> string" where
  "before_first_point s = takeWhile (\<lambda>c. c \<noteq> CHR ''.'') s"

definition digits_only :: "string \<Rightarrow> string" where
  "digits_only s = filter is_digit s"

text \<open>The Cyrillic label of the docstring's example, in UTF-8.\<close>

definition rub :: string where
  "rub = [CHR 0xD1, CHR 0x80, CHR 0xD1, CHR 0x83, CHR 0xD0, CHR 0xB1, CHR ''.'']"

subsection \<open>seller.divide\<close>

text \<open>
  \<^verbatim>\<open>for i in range(0, len(lst), n): yield lst[i : i + n]\<close>
  \<open>range(0, stop, step)\<close> raises ValueError for step 0 and otherwise has the length that
  CPython computes; a slice clamps its bounds to the list. The generator is modelled by the
  list of everything it yields, which is how every caller consumes it.
\<close>

definition range_len :: "int \<Rightarrow> int \<Rightarrow> nat" where
  "range_len stop step =
     (if 0 < step then (if 0 < stop then nat ((stop - 1) div step + 1) else 0)
      else (if stop < 0 then nat ((- stop - 1) div (- step) + 1) else 0))"

definition py_range0 :: "int \<Rightarrow> int \<Rightarrow> error + int list" where
  "py_range0 stop step =
     (if step = 0 then Inl ValueError
      else Inr (map (\<lambda>k. int k * step) [0 ..< range_len stop step]))"

definition slice_index :: "nat \<Rightarrow> int \<Rightarrow> nat" where
  "slice_index len i = (if i < 0 then nat (max 0 (i + int len)) else min (nat i) len)"

definition py_slice :: "'a list \<Rightarrow> int \<Rightarrow> int \<Rightarrow> 'a list" where
  "py_slice xs lo hi =
     (let l = slice_index (length xs) lo; h = slice_index (length xs) hi
      in take (h - l) (drop l xs))"

definition divide :: "'a list \<Rightarrow> int \<Rightarrow> error + 'a list list" where
  "divide lst n =
     (case py_range0 (int (length lst)) n of
        Inl e \<Rightarrow> Inl e
      | Inr starts \<Rightarrow> Inr (map (\<lambda>i. py_slice lst i (i + n)) starts))"

text \<open>The batches that \<open>divide\<close> yields for a positive size \<open>m\<close>, written with naturals.\<close>

definition blocks :: "'a list \<Rightarrow> nat \<Rightarrow> 'a list list" where
  "blocks xs m =
     map (\<lambda>j. take m (drop (j * m) xs))
       [0 ..< (if xs = [] then 0 else (length xs - 1) div m + 1)]"

subsection \<open>Data\<close>

text \<open>
  A row of the inventory spreadsheet: the dictionary with the three Cyrillic keys for code,
  quantity and price, named here by their transliterations \<open>Kod\<close>, \<open>Kolichestvo\<close> and
  \<open>Tsena\<close>, each holding text, as in the docstrings of both modules. On text, \<open>str(x)\<close>
  is \<open>x\<close>, so \<open>str(watch.get(Kod))\<close> is the field itself.
\<close>

record inventory_record =
  Kod :: string
  Kolichestvo :: string
  Tsena :: string

text \<open>The payload dictionaries the two modules build, field by field.\<close>

record seller_stock =
  stock_offer_id :: string
  stock :: int

record seller_price =
  auto_action_enabled :: string
  currency_code :: string
  price_offer_id :: string
  old_price :: string
  price :: string

record market_item =
  item_count :: int
  item_type :: string
  updatedAt :: string

record market_stock =
  sku :: string
  warehouseId :: string
  items :: "market_item list"

record market_price_value =
  price_value :: int
  currencyId :: string

record market_price =
  price_id :: string
  price_body :: market_price_value

subsection \<open>create_stocks\<close>

text \<open>
  The quantity branch that both \<open>create_stocks\<close> share, on \<open>count = str(watch.get(Kolichestvo))\<close>:
  \<^verbatim>\<open>
  if count == ">10": stock = 100
  elif count == "1": stock = 0
  else:              stock = int(watch.get(Kolichestvo))
  \<close>
\<close>

definition stock_of_count :: "interpreter \<Rightarrow> string \<Rightarrow> error + int" where
  "stock_of_count py cnt =
     (if cnt = ''>10'' then Inr 100
      else if cnt = ''1'' then Inr 0
      else (case py_int py cnt of None \<Rightarrow> Inl ValueError | Some n \<Rightarrow> Inr n))"

text \<open>
  seller.create_stocks. The first loop appends an entry for every row whose code is in
  \<open>offer_ids\<close> at that moment and removes the first occurrence of the code from the list
  (\<open>list.remove\<close>); the second loop appends a zero entry for what is left. The list is the
  caller's object, so the model returns it as the call leaves it, next to the result.
\<close>

fun seller_stocks_loop ::
  "interpreter \<Rightarrow> inventory_record list \<Rightarrow> seller_stock list \<Rightarrow> string list \<Rightarrow>
   error + (seller_stock list \<times> string list)" where
  "seller_stocks_loop py [] stocks offer_ids = Inr (stocks, offer_ids)"
| "seller_stocks_loop py (watch # rest) stocks offer_ids =
     (if Kod watch \<in> set offer_ids then
        (case stock_of_count py (Kolichestvo watch) of
           Inl e \<Rightarrow> Inl e
         | Inr n \<Rightarrow>
             seller_stocks_loop py rest
               (stocks @ [\<lparr>stock_offer_id = Kod watch, stock = n\<rparr>])
               (remove1 (Kod watch) offer_ids))
      else seller_stocks_loop py rest stocks offer_ids)"

definition seller_create_stocks ::
  "interpreter \<Rightarrow> inventory_record list \<Rightarrow> string list \<Rightarrow>
   error + (seller_stock list \<times> string list)" where
  "seller_create_stocks py watch_remnants offer_ids =
     (case seller_stocks_loop py watch_remnants [] offer_ids of
        Inl e \<Rightarrow> Inl e
      | Inr (stocks, left) \<Rightarrow>
          Inr (stocks @ map (\<lambda>offer_id. \<lparr>stock_offer_id = offer_id, stock = 0\<rparr>) left, left))"

text \<open>
  market.create_stocks: the same two loops with the marketplace's payload. \<open>date\<close> is the
  text the function builds from the system clock when it starts
  (\<open>utcnow().replace(microsecond=0).isoformat() + "Z"\<close>); it is an argument here.
\<close>

fun market_stocks_loop ::
  "interpreter \<Rightarrow> string \<Rightarrow> string \<Rightarrow> inventory_record list \<Rightarrow> market_stock list \<Rightarrow>
   string list \<Rightarrow> error + (market_stock list \<times> string list)" where
  "market_stocks_loop py warehouse_id date [] stocks offer_ids = Inr (stocks, offer_ids)"
| "market_stocks_loop py warehouse_id date (watch # rest) stocks offer_ids =
     (if Kod watch \<in> set offer_ids then
        (case stock_of_count py (Kolichestvo watch) of
           Inl e \<Rightarrow> Inl e
         | Inr n \<Rightarrow>
             market_stocks_loop py warehouse_id date rest
               (stocks @
                [\<lparr>sku = Kod watch, warehouseId = warehouse_id,
                  items = [\<lparr>item_count = n, item_type = ''FIT'', updatedAt = date\<rparr>]\<rparr>])
               (remove1 (Kod watch) offer_ids))
      else market_stocks_loop py warehouse_id date rest stocks offer_ids)"

definition market_create_stocks ::
  "interpreter \<Rightarrow> string \<Rightarrow> inventory_record list \<Rightarrow> string list \<Rightarrow> string \<Rightarrow>
   error + (market_stock list \<times> string list)" where
  "market_create_stocks py date watch_remnants offer_ids warehouse_id =
     (case market_stocks_loop py warehouse_id date watch_remnants [] offer_ids of
        Inl e \<Rightarrow> Inl e
      | Inr (stocks, left) \<Rightarrow>
          Inr (stocks @
               map (\<lambda>offer_id.
                      \<lparr>sku = offer_id, warehouseId = warehouse_id,
                       items = [\<lparr>item_count = 0, item_type = ''FIT'', updatedAt = date\<rparr>]\<rparr>)
                 left,
               left))"

subsection \<open>create_prices\<close>

text \<open>
  Neither \<open>create_prices\<close> has a statement that changes \<open>offer_ids\<close>; like
  \<open>create_stocks\<close>, the model returns the caller's list next to the result.
\<close>

fun seller_prices_loop ::
  "inventory_record list \<Rightarrow> seller_price list \<Rightarrow> string list \<Rightarrow> error + seller_price list" where
  "seller_prices_loop [] prices offer_ids = Inr prices"
| "seller_prices_loop (watch # rest) prices offer_ids =
     (if Kod watch \<in> set offer_ids then
        (case price_conversion (Tsena watch) of
           Inl e \<Rightarrow> Inl e
         | Inr p \<Rightarrow>
             seller_prices_loop rest
               (prices @
                [\<lparr>auto_action_enabled = ''UNKNOWN'', currency_code = ''RUB'',
                  price_offer_id = Kod watch, old_price = ''0'', price = p\<rparr>])
               offer_ids)
      else seller_prices_loop rest prices offer_ids)"

definition seller_create_prices ::
  "inventory_record list \<Rightarrow> string list \<Rightarrow> error + (seller_price list \<times> string list)" where
  "seller_create_prices watch_remnants offer_ids =
     (case seller_prices_loop watch_remnants [] offer_ids of
        Inl e \<Rightarrow> Inl e
      | Inr prices \<Rightarrow> Inr (prices, offer_ids))"

text \<open>market.create_prices applies \<open>int\<close> to what \<open>price_conversion\<close> returns.\<close>

fun market_prices_loop ::
  "interpreter \<Rightarrow> inventory_record list \<Rightarrow> market_price list \<Rightarrow> string list \<Rightarrow>
   error + market_price list" where
  "market_prices_loop py [] prices offer_ids = Inr prices"
| "market_prices_loop py (watch # rest) prices offer_ids =
     (if Kod watch \<in> set offer_ids then
        (case price_conversion (Tsena watch) of
           Inl e \<Rightarrow> Inl e
         | Inr p \<Rightarrow>
             (case py_int py p of
                None \<Rightarrow> Inl ValueError
              | Some v \<Rightarrow>
                  market_prices_loop py rest
                    (prices @
                     [\<lparr>price_id = Kod watch,
                       price_body = \<lparr>price_value = v, currencyId = ''RUR''\<rparr>\<rparr>])
                    offer_ids))
      else market_prices_loop py rest prices offer_ids)"

definition market_create_prices ::
  "interpreter \<Rightarrow> inventory_record list \<Rightarrow> string list \<Rightarrow>
   error + (market_price list \<times> string list)" where
  "market_create_prices py watch_remnants offer_ids =
     (case market_prices_loop py watch_remnants [] offer_ids of
        Inl e \<Rightarrow> Inl e
      | Inr prices \<Rightarrow> Inr (prices, offer_ids))"

subsection \<open>The reconciliation, read off the loops\<close>

text \<open>
  The quantity policy as the specification words it, the rows that the first loop of
  \<open>create_stocks\<close> matches, in order, and the identifiers it leaves in the list.
\<close>

definition quantity_policy :: "interpreter \<Rightarrow> string \<Rightarrow> int option" where
  "quantity_policy py q =
     (if q = ''>10'' then Some 100 else if q = ''1'' then Some 0 else py_int py q)"

fun matched :: "inventory_record list \<Rightarrow> string list \<Rightarrow> inventory_record list" where
  "matched [] ids = []"
| "matched (w # ws) ids =
     (if Kod w \<in> set ids then w # matched ws (remove1 (Kod w) ids) else matched ws ids)"

fun leftover :: "inventory_record list \<Rightarrow> string list \<Rightarrow> string list" where
  "leftover [] ids = ids"
| "leftover (w # ws) ids =
     (if Kod w \<in> set ids then leftover ws (remove1 (Kod w) ids) else leftover ws ids)"

definition parses :: "interpreter \<Rightarrow> inventory_record \<Rightarrow> bool" where
  "parses py w = (quantity_policy py (Kolichestvo w) \<noteq> None)"

definition quantity :: "interpreter \<Rightarrow> inventory_record \<Rightarrow> int" where
  "quantity py w = (case quantity_policy py (Kolichestvo w) of None \<Rightarrow> 0 | Some n \<Rightarrow> n)"

text \<open>
  The digits of a row's price, and when \<open>int\<close> accepts them: there is one at least, and
  they are not more than the interpreter's limit allows.
\<close>

definition price_digits :: "inventory_record \<Rightarrow> string" where
  "price_digits w = digits_only (before_first_point (Tsena w))"

definition int_accepts_price :: "interpreter \<Rightarrow> inventory_record \<Rightarrow> bool" where
  "int_accepts_price py w =
     (price_digits w \<noteq> [] \<and>
      \<not> (640 < length (price_digits w) \<and> 0 < max_str_digits py \<and>
         max_str_digits py < length (price_digits w)))"

text \<open>The number a text of decimal digits denotes.\<close>

definition decimal :: "string \<Rightarrow> nat" where
  "decimal s = foldl (\<lambda>a c. 10 * a + digit_value c) 0 s"

text \<open>The integer market.create_prices sends for a row: the number its price digits denote.\<close>

definition market_value :: "inventory_record \<Rightarrow> int" where
  "market_value w = int (decimal (price_digits w))"

text \<open>Replacing the time stamp of a market entry, to compare two runs of \<open>create_stocks\<close>.\<close>

definition restamp :: "string \<Rightarrow> market_stock \<Rightarrow> market_stock" where
  "restamp date s = s\<lparr>items := map (\<lambda>i. i\<lparr>updatedAt := date\<rparr>) (items s)\<rparr>"

subsection \<open>The marketplaces and main\<close>

text \<open>
  The three \<open>except\<close> clauses of both \<open>main\<close>, tried in the order written:
  \<open>requests.exceptions.ReadTimeout\<close>, \<open>requests.exceptions.ConnectionError\<close>, \<open>Exception\<close>.
\<close>

datatype handler = ReadTimeoutClause | ConnectionErrorClause | ExceptionClause

fun handler_of :: "error \<Rightarrow> handler" where
  "handler_of ReadTimeout = ReadTimeoutClause"
| "handler_of ConnectionError = ConnectionErrorClause"
| "handler_of e = ExceptionClause"

text \<open>
  How a run of \<open>main\<close> ends: the \<open>try\<close> block ran to its end, a clause caught an exception
  and printed its message, or an exception left \<open>main\<close>.
\<close>

datatype outcome = Completed | Caught handler error | Escaped error

text \<open>
  \<^verbatim>\<open>for some in batches: update(some, ...)\<close>
  \<open>sent\<close> collects the batches the update function was called with; the loop stops at the
  first call that raises.
\<close>

fun send_all :: "('b \<Rightarrow> error option) \<Rightarrow> 'b list \<Rightarrow> 'b list \<Rightarrow> 'b list \<times> error option" where
  "send_all update [] sent = (sent, None)"
| "send_all update (b # bs) sent =
     (case update b of
        Some e \<Rightarrow> (sent @ [b], Some e)
      | None \<Rightarrow> send_all update bs (sent @ [b]))"

text \<open>
  The Ozon side as seller.main meets it: what \<open>get_offer_ids\<close> and \<open>download_stock\<close> return
  or raise (each taken as one call; the paging loop inside \<open>get_offer_ids\<close> is not
  unfolded), and the exception, if any, that an update request raises for a batch. The
  reads of the environment before the \<open>try\<close> are taken to succeed.
\<close>

record seller_remote =
  seller_get_offer_ids :: "error + string list"
  seller_download_stock :: "error + inventory_record list"
  seller_update_stocks :: "seller_stock list \<Rightarrow> error option"
  seller_update_price :: "seller_price list \<Rightarrow> error option"

record seller_run =
  stocks_sent :: "seller_stock list list"
  prices_sent :: "seller_price list list"
  ending :: outcome

text \<open>
  The \<open>try\<close> block of seller.main. \<open>create_prices\<close> receives the very list object that
  \<open>create_stocks\<close> has worked on, so it is called with the list as that call left it.
\<close>

definition seller_main_try ::
  "interpreter \<Rightarrow> seller_remote \<Rightarrow>
   (seller_stock list list \<times> seller_price list list) \<times> error option" where
  "seller_main_try py r =
     (case seller_get_offer_ids r of
        Inl e \<Rightarrow> (([], []), Some e)
      | Inr offer_ids \<Rightarrow>
     (case seller_download_stock r of
        Inl e \<Rightarrow> (([], []), Some e)
      | Inr watch_remnants \<Rightarrow>
     (case seller_create_stocks py watch_remnants offer_ids of
        Inl e \<Rightarrow> (([], []), Some e)
      | Inr (stocks, offer_ids') \<Rightarrow>
     (case divide stocks 100 of
        Inl e \<Rightarrow> (([], []), Some e)
      | Inr stock_batches \<Rightarrow>
     (case send_all (seller_update_stocks r) stock_batches [] of
        (sent, Some e) \<Rightarrow> ((sent, []), Some e)
      | (sent, None) \<Rightarrow>
     (case seller_create_prices watch_remnants offer_ids' of
        Inl e \<Rightarrow> ((sent, []), Some e)
      | Inr (prices, offer_ids'') \<Rightarrow>
     (case divide prices 900 of
        Inl e \<Rightarrow> ((sent, []), Some e)
      | Inr price_batches \<Rightarrow>
     (case send_all (seller_update_price r) price_batches [] of
        (psent, res) \<Rightarrow> ((sent, psent), res)))))))))"

definition seller_main :: "interpreter \<Rightarrow> seller_remote \<Rightarrow> seller_run" where
  "seller_main py r =
     (case seller_main_try py r of
        ((sent, psent), None) \<Rightarrow>
          \<lparr>stocks_sent = sent, prices_sent = psent, ending = Completed\<rparr>
      | ((sent, psent), Some e) \<Rightarrow>
          \<lparr>stocks_sent = sent, prices_sent = psent, ending = Caught (handler_of e) e\<rparr>)"

text \<open>
  seller.upload_prices, the body that runs when the coroutine is awaited: it fetches the
  offer identifiers itself. Nothing in the module calls it.
\<close>

definition seller_upload_prices ::
  "seller_remote \<Rightarrow> inventory_record list \<Rightarrow> seller_price list list \<times> (error + seller_price list)" where
  "seller_upload_prices r watch_remnants =
     (case seller_get_offer_ids r of
        Inl e \<Rightarrow> ([], Inl e)
      | Inr offer_ids \<Rightarrow>
     (case seller_create_prices watch_remnants offer_ids of
        Inl e \<Rightarrow> ([], Inl e)
      | Inr (prices, offer_ids') \<Rightarrow>
     (case divide prices 1000 of
        Inl e \<Rightarrow> ([], Inl e)
      | Inr price_batches \<Rightarrow>
     (case send_all (seller_update_price r) price_batches [] of
        (psent, Some e) \<Rightarrow> (psent, Inl e)
      | (psent, None) \<Rightarrow> (psent, Inr prices)))))"

text \<open>
  The Yandex Market side as market.main meets it. Requests carry the campaign they go to.
  The four identifiers come from the environment; \<open>clock_fbs\<close> and \<open>clock_dbs\<close> are the
  time stamps the two calls of \<open>create_stocks\<close> build from the clock.
\<close>

record market_remote =
  market_download_stock :: "error + inventory_record list"
  market_get_offer_ids :: "string \<Rightarrow> error + string list"
  market_update_stocks :: "string \<times> market_stock list \<Rightarrow> error option"
  market_update_price :: "string \<times> market_price list \<Rightarrow> error option"
  campaign_fbs_id :: string
  campaign_dbs_id :: string
  warehouse_fbs_id :: string
  warehouse_dbs_id :: string
  clock_fbs :: string
  clock_dbs :: string

record market_run =
  market_stocks_sent :: "(string \<times> market_stock list) list"
  market_prices_sent :: "(string \<times> market_price list) list"
  market_ending :: outcome

text \<open>market.upload_prices, the body that runs when the coroutine is awaited.\<close>

definition market_upload_prices ::
  "interpreter \<Rightarrow> market_remote \<Rightarrow> inventory_record list \<Rightarrow> string \<Rightarrow>
   (string \<times> market_price list) list \<times> (error + market_price list)" where
  "market_upload_prices py r watch_remnants campaign_id =
     (case market_get_offer_ids r campaign_id of
        Inl e \<Rightarrow> ([], Inl e)
      | Inr offer_ids \<Rightarrow>
     (case market_create_prices py watch_remnants offer_ids of
        Inl e \<Rightarrow> ([], Inl e)
      | Inr (prices, offer_ids') \<Rightarrow>
     (case divide prices 500 of
        Inl e \<Rightarrow> ([], Inl e)
      | Inr price_batches \<Rightarrow>
     (case send_all (market_update_price r) (map (Pair campaign_id) price_batches) [] of
        (psent, Some e) \<Rightarrow> (psent, Inl e)
      | (psent, None) \<Rightarrow> (psent, Inr prices)))))"

text \<open>
  The block that market.main has twice, for FBS and then for DBS: fetch the offers of the
  campaign, build the stocks, send them in batches of 2000, then the statement
  \<^verbatim>\<open>upload_prices(watch_remnants, campaign_id, market_token)\<close>.
  \<open>upload_prices\<close> is declared \<open>async def\<close> and the statement has no \<open>await\<close>: it builds a
  coroutine object and drops it, and the body never runs. The model binds the body's
  description to \<open>coroutine\<close> and does not use it.
\<close>

definition market_campaign_block ::
  "interpreter \<Rightarrow> market_remote \<Rightarrow> inventory_record list \<Rightarrow> string \<Rightarrow> string \<Rightarrow> string \<Rightarrow>
   (string \<times> market_stock list) list \<Rightarrow> (string \<times> market_stock list) list \<times> error option" where
  "market_campaign_block py r watch_remnants campaign_id warehouse_id date sent =
     (case market_get_offer_ids r campaign_id of
        Inl e \<Rightarrow> (sent, Some e)
      | Inr offer_ids \<Rightarrow>
     (case market_create_stocks py date watch_remnants offer_ids warehouse_id of
        Inl e \<Rightarrow> (sent, Some e)
      | Inr (stocks, offer_ids') \<Rightarrow>
     (case divide stocks 2000 of
        Inl e \<Rightarrow> (sent, Some e)
      | Inr stock_batches \<Rightarrow>
     (case send_all (market_update_stocks r) (map (Pair campaign_id) stock_batches) sent of
        (sent', Some e) \<Rightarrow> (sent', Some e)
      | (sent', None) \<Rightarrow>
          (let coroutine = market_upload_prices py r watch_remnants campaign_id
           in (sent', None))))))"

definition market_main_try ::
  "interpreter \<Rightarrow> market_remote \<Rightarrow> inventory_record list \<Rightarrow>
   (string \<times> market_stock list) list \<times> error option" where
  "market_main_try py r watch_remnants =
     (case market_campaign_block py r watch_remnants
             (campaign_fbs_id r) (warehouse_fbs_id r) (clock_fbs r) [] of
        (sent, Some e) \<Rightarrow> (sent, Some e)
      | (sent, None) \<Rightarrow>
          market_campaign_block py r watch_remnants
            (campaign_dbs_id r) (warehouse_dbs_id r) (clock_dbs r) sent)"

text \<open>market.main calls \<open>download_stock()\<close> on the line before its \<open>try:\<close>.\<close>

definition market_main :: "interpreter \<Rightarrow> market_remote \<Rightarrow> market_run" where
  "market_main py r =
     (case market_download_stock r of
        Inl e \<Rightarrow> \<lparr>market_stocks_sent = [], market_prices_sent = [], market_ending = Escaped e\<rparr>
      | Inr watch_remnants \<Rightarrow>
     (case market_main_try py r watch_remnants of
        (sent, None) \<Rightarrow>
          \<lparr>market_stocks_sent = sent, market_prices_sent = [], market_ending = Completed\<rparr>
      | (sent, Some e) \<Rightarrow>
          \<lparr>market_stocks_sent = sent, market_prices_sent = [],
           market_ending = Caught (handler_of e) e\<rparr>))"

subsection \<open>The end-to-end scenario of the specification\<close>

text \<open>
  Offers A, B, C and one inventory row for A with quantity \<open>>10\<close> and price \<open>100.00 r.\<close>
  (\<open>r\<close> standing for the Cyrillic letter, which the row holds in UTF-8); every request succeeds.
\<close>

definition scenario_row :: inventory_record where
  "scenario_row =
     \<lparr>Kod = ''A'', Kolichestvo = ''>10'', Tsena = ''100.00 '' @ [CHR 0xD1, CHR 0x80, CHR ''.'']\<rparr>"

definition scenario_offers :: "string list" where
  "scenario_offers = [''A'', ''B'', ''C'']"

definition scenario_seller :: seller_remote where
  "scenario_seller =
     \<lparr>seller_get_offer_ids = Inr scenario_offers,
      seller_download_stock = Inr [scenario_row],
      seller_update_stocks = (\<lambda>b. None),
      seller_update_price = (\<lambda>b. None)\<rparr>"

definition scenario_market :: market_remote where
  "scenario_market =
     \<lparr>market_download_stock = Inr [scenario_row],
      market_get_offer_ids = (\<lambda>c. Inr scenario_offers),
      market_update_stocks = (\<lambda>b. None),
      market_update_price = (\<lambda>b. None),
      campaign_fbs_id = ''fbs'', campaign_dbs_id = ''dbs'',
      warehouse_fbs_id = ''w1'', warehouse_dbs_id = ''w2'',
      clock_fbs = ''2024-01-01T00:00:00Z'', clock_dbs = ''2024-01-01T00:00:01Z''\<rparr>"

text \<open>
  Two more rows for B, one with a quantity that is no number, one with a price without
  digits, and a row for A with quantity 7.
\<close>

definition row_many :: inventory_record where
  "row_many = \<lparr>Kod = ''B'', Kolichestvo = ''many'', Tsena = ''1''\<rparr>"

definition row_nodigit :: inventory_record where
  "row_nodigit = \<lparr>Kod = ''B'', Kolichestvo = ''2'', Tsena = ''n/a.50''\<rparr>"

definition row_seven :: inventory_record where
  "row_seven = \<lparr>Kod = ''A'', Kolichestvo = ''7'', Tsena = ''5'990.00 '' @ rub\<rparr>"

text \<open>
  An interpreter for the concrete runs: the default limit of 4300 digits. No run below reads
  an integer from text beyond ASCII, and this instance rejects such text.
\<close>

definition py_default :: interpreter where
  "py_default = \<lparr>max_str_digits = 4300, int_beyond_ascii = (\<lambda>s. None)\<rparr>"

section \<open>Properties\<close>

subsection \<open>The price parser\<close>

lemma split_from_first:
  "\<exists>rest. split_from sep cur s = (cur @ takeWhile (\<lambda>c. c \<noteq> sep) s) # rest"
proof (induction s arbitrary: cur)
  case Nil
  then show ?case by simp
next
  case (Cons a s)
  show ?case using Cons [of "cur @ [a]"] Cons [of "[]"] by auto
qed

lemma re_sub_filter: "re_sub_non_digits s = filter is_digit s"
  by (induction s) auto

lemma price_conversion_eq: "price_conversion p = Inr (digits_only (before_first_point p))"
proof -
  obtain rest where "py_split (CHR ''.'') p = before_first_point p # rest"
    unfolding py_split_def before_first_point_def
    using split_from_first [of "CHR ''.''" "[]" p] by auto
  then show ?thesis
    by (simp add: price_conversion_def digits_only_def re_sub_filter)
qed

text \<open>
  C3. For every text, \<open>price_conversion\<close> returns (and never raises) the text before the
  first \<open>.\<close> with every character that is not an ASCII digit deleted; the fraction is cut
  off, not rounded. The docstring's price with thousands separator and currency label gives
  5990, the one without fraction gives 1000, \<open>12.99\<close> gives 12, and a text with no digit
  before its first \<open>.\<close> gives the empty text.
\<close>

theorem price_conversion_digits_before_point:
  "price_conversion p = Inr (digits_only (before_first_point p)) \<and>
   price_conversion (''5'990.00 '' @ rub) = Inr ''5990'' \<and>
   price_conversion (''1000 '' @ rub) = Inr ''1000'' \<and>
   price_conversion ''12.99'' = Inr ''12'' \<and>
   ((\<forall>c \<in> set (before_first_point p). \<not> is_digit c) \<longrightarrow> price_conversion p = Inr [])"
proof -
  have a: "price_conversion q = Inr (digits_only (before_first_point q))" for q
    by (rule price_conversion_eq)
  have b: "price_conversion (''5'990.00 '' @ rub) = Inr ''5990''"
    by (simp add: a digits_only_def before_first_point_def rub_def is_digit_def)
  have c: "price_conversion (''1000 '' @ rub) = Inr ''1000''"
    by (simp add: a digits_only_def before_first_point_def rub_def is_digit_def)
  have d: "price_conversion ''12.99'' = Inr ''12''"
    by (simp add: a digits_only_def before_first_point_def is_digit_def)
  have e: "(\<forall>c \<in> set (before_first_point p). \<not> is_digit c) \<longrightarrow> price_conversion p = Inr []"
    by (simp add: a digits_only_def filter_empty_conv)
  from a b c d e show ?thesis by blast
qed

theorem price_conversion_digits_before_point_witness:
  "price_conversion (rub @ ''12.50'') = Inr []"
proof -
  have "\<forall>c \<in> set (before_first_point (rub @ ''12.50'')). \<not> is_digit c"
    by (simp add: before_first_point_def rub_def is_digit_def)
  with price_conversion_digits_before_point [of "rub @ ''12.50''"] show ?thesis by blast
qed

subsection \<open>The batcher\<close>

lemma range_len_pos:
  assumes "0 < n"
  shows "range_len (int len) n = (if len = 0 then 0 else (len - 1) div nat n + 1)"
proof (cases "len = 0")
  case True
  then show ?thesis using assms by (simp add: range_len_def)
next
  case False
  have "(int len - 1) div n = int ((len - 1) div nat n)"
    using assms False by (simp add: zdiv_int of_nat_diff)
  then show ?thesis using assms False
    by (simp add: range_len_def nat_add_distrib)
qed

lemma py_slice_nat: "py_slice xs (int a) (int a + int m) = take m (drop a xs)"
proof -
  have "slice_index (length xs) (int a) = min a (length xs)"
    by (simp add: slice_index_def)
  moreover have "slice_index (length xs) (int a + int m) = min (a + m) (length xs)"
    by (simp add: slice_index_def nat_add_distrib)
  ultimately show ?thesis
    by (cases "a \<le> length xs") (auto simp: py_slice_def min_def)
qed

lemma divide_blocks:
  assumes "0 < n"
  shows "divide lst n = Inr (blocks lst (nat n))"
proof -
  have "py_slice lst (int k * n) (int k * n + n) = take (nat n) (drop (k * nat n) lst)" for k
    using py_slice_nat [of lst "k * nat n" "nat n"] assms by simp
  then show ?thesis
    using assms by (simp add: divide_def py_range0_def range_len_pos blocks_def)
qed

lemma concat_take_blocks:
  "concat (map (\<lambda>j. take m (drop (j * m) xs)) [0 ..< k]) = take (k * m) xs"
proof (induction k)
  case 0
  then show ?case by simp
next
  case (Suc k)
  have "take (k * m + m) xs = take (k * m) xs @ take m (drop (k * m) xs)"
    by (simp add: take_add)
  then show ?case using Suc by (simp add: add.commute)
qed

lemma blocks_cover:
  assumes "0 < m" "xs \<noteq> []"
  shows "length xs \<le> ((length xs - 1) div m + 1) * m"
proof -
  have "length xs - 1 < ((length xs - 1) div m + 1) * m"
    using assms(1)
    by (metis Suc_eq_plus1 dividend_less_div_times mult.commute mult_Suc_right add.commute)
  then show ?thesis by simp
qed

lemma concat_blocks:
  assumes "0 < m"
  shows "concat (blocks xs m) = xs"
proof (cases "xs = []")
  case True
  then show ?thesis by (simp add: blocks_def)
next
  case False
  then show ?thesis
    using blocks_cover [OF assms False] by (simp add: blocks_def concat_take_blocks)
qed

lemma block_start_inside:
  assumes "0 < m" "xs \<noteq> []" "j < (length xs - 1) div m + 1"
  shows "j * m < length xs"
proof -
  have "j \<le> (length xs - 1) div m" using assms(3) by simp
  then have "j * m \<le> ((length xs - 1) div m) * m" by simp
  also have "\<dots> \<le> length xs - 1" by simp
  finally show ?thesis using assms(2) by (cases xs) auto
qed

lemma blocks_bounds:
  assumes "0 < m" "c \<in> set (blocks xs m)"
  shows "c \<noteq> [] \<and> length c \<le> m"
proof -
  from assms(2) obtain j where j: "j < (length xs - 1) div m + 1" "xs \<noteq> []"
    and c: "c = take m (drop (j * m) xs)"
    by (auto simp: blocks_def split: if_splits)
  have "j * m < length xs" using block_start_inside [OF assms(1) j(2) j(1)] .
  then show ?thesis using assms(1) c by auto
qed

lemma blocks_full:
  assumes "0 < m" "c \<in> set (butlast (blocks xs m))"
  shows "length c = m"
proof -
  have "butlast (blocks xs m) =
        map (\<lambda>j. take m (drop (j * m) xs))
          [0 ..< (if xs = [] then 0 else (length xs - 1) div m)]"
    by (simp add: blocks_def map_butlast [symmetric])
  with assms(2) obtain j where j: "j < (length xs - 1) div m" "xs \<noteq> []"
    and c: "c = take m (drop (j * m) xs)"
    by (auto split: if_splits)
  have "Suc j \<le> (length xs - 1) div m" using j(1) by simp
  then have "Suc j * m \<le> ((length xs - 1) div m) * m" by (rule mult_le_mono1)
  also have "\<dots> \<le> length xs - 1" by simp
  finally have "j * m + m \<le> length xs" by simp
  then show ?thesis using c by simp
qed

text \<open>
  C4. For every list and every size \<open>n > 0\<close>, \<open>divide\<close> yields consecutive batches, in
  order, whose concatenation is the list; no batch is empty or longer than \<open>n\<close>, and every
  batch but the last has exactly \<open>n\<close> elements. The empty list yields no batch, and
  \<open>divide([1,2,3,4,5], 2)\<close> yields \<open>[[1,2],[3,4],[5]]\<close>.
\<close>

theorem divide_batches:
  assumes "0 < n"
  shows "(\<exists>cs. divide lst n = Inr cs \<and> concat cs = lst \<and>
            (\<forall>c \<in> set cs. c \<noteq> [] \<and> int (length c) \<le> n) \<and>
            (\<forall>c \<in> set (butlast cs). int (length c) = n)) \<and>
         divide ([] :: 'a list) n = Inr [] \<and>
         divide [1, 2, 3, 4, 5 :: int] 2 = Inr [[1, 2], [3, 4], [5]]"
proof -
  have m: "0 < nat n" using assms by simp
  have a: "divide lst n = Inr (blocks lst (nat n))"
    using assms by (rule divide_blocks)
  have b: "concat (blocks lst (nat n)) = lst"
    using m by (rule concat_blocks)
  have c: "\<forall>c \<in> set (blocks lst (nat n)). c \<noteq> [] \<and> int (length c) \<le> n"
  proof
    fix c assume "c \<in> set (blocks lst (nat n))"
    with m have "c \<noteq> [] \<and> length c \<le> nat n" by (rule blocks_bounds)
    then show "c \<noteq> [] \<and> int (length c) \<le> n" using assms by auto
  qed
  have d: "\<forall>c \<in> set (butlast (blocks lst (nat n))). int (length c) = n"
  proof
    fix c assume "c \<in> set (butlast (blocks lst (nat n)))"
    with m have "length c = nat n" by (rule blocks_full)
    then show "int (length c) = n" using assms by simp
  qed
  have e: "divide ([] :: 'a list) n = Inr []"
    using assms by (simp add: divide_blocks blocks_def)
  have "(2 :: int) > 0" by simp
  then have "divide [1, 2, 3, 4, 5 :: int] 2 = Inr (blocks [1, 2, 3, 4, 5] (nat 2))"
    by (rule divide_blocks)
  also have "blocks [1, 2, 3, 4, 5 :: int] (nat 2) = [[1, 2], [3, 4], [5]]"
    by (simp add: blocks_def upt_rec)
  finally have f: "divide [1, 2, 3, 4, 5 :: int] 2 = Inr [[1, 2], [3, 4], [5]]" .
  from a b c d e f show ?thesis by blast
qed

theorem divide_batches_witness:
  "divide ''abcdefg'' 3 = Inr [''abc'', ''def'', ''g''] \<and> concat [''abc'', ''def'', ''g''] = ''abcdefg''"
proof -
  have "(0 :: int) < 3" by simp
  from divide_batches [OF this, of "''abcdefg''"]
  obtain cs where cs: "divide ''abcdefg'' 3 = Inr cs" "concat cs = ''abcdefg''" by blast
  have "divide ''abcdefg'' 3 = Inr [''abc'', ''def'', ''g'']"
    by (simp add: divide_def py_range0_def range_len_def py_slice_def slice_index_def upt_rec)
  with cs show ?thesis by simp
qed

subsection \<open>Reading integers\<close>

lemma digit_is_ascii: "is_digit c \<Longrightarrow> is_ascii c"
  by (auto simp: is_digit_def is_ascii_def)

lemma digit_not_space: "is_digit c \<Longrightarrow> \<not> py_isspace c"
  by (auto simp: is_digit_def py_isspace_def)

lemma dropWhile_none: "\<forall>c \<in> set s. \<not> P c \<Longrightarrow> dropWhile P s = s"
  by (cases s) auto

lemma py_strip_digits: "\<forall>c \<in> set s. is_digit c \<Longrightarrow> py_strip s = s"
  by (simp add: py_strip_def dropWhile_none digit_not_space)

lemma parse_digits_all:
  "\<forall>c \<in> set s. is_digit c \<Longrightarrow> (s \<noteq> [] \<or> b) \<Longrightarrow>
   parse_digits b acc s = Some (foldl (\<lambda>a c. 10 * a + digit_value c) acc s)"
  by (induction s arbitrary: b acc) auto

lemma filter_all: "\<forall>c \<in> set s. P c \<Longrightarrow> filter P s = s"
  by (induction s) auto

lemma py_int_digits:
  assumes "\<forall>c \<in> set s. is_digit c"
  shows "py_int py s =
           (if s = [] \<or> over_limit (max_str_digits py) (length s) then None
            else Some (int (decimal s)))"
proof (cases s)
  case Nil
  then show ?thesis by (simp add: py_int_def ascii_int_def py_strip_def)
next
  case (Cons c cs)
  have a: "list_all is_ascii s" using assms by (simp add: list_all_iff digit_is_ascii)
  have "is_digit c" using assms Cons by simp
  then have sign: "c \<noteq> CHR ''-''" "c \<noteq> CHR ''+''" by (auto simp: is_digit_def)
  have p: "parse_digits False 0 s = Some (decimal s)"
    using assms Cons by (simp add: parse_digits_all decimal_def del: parse_digits.simps)
  have f: "filter is_digit s = s" using assms by (rule filter_all)
  have u: "unsigned_int (max_str_digits py) s =
             (if over_limit (max_str_digits py) (length s) then None else Some (decimal s))"
    by (simp add: unsigned_int_def p f)
  have "ascii_int (max_str_digits py) s = map_option int (unsigned_int (max_str_digits py) s)"
    using sign Cons py_strip_digits [OF assms] by (simp add: ascii_int_def)
  then show ?thesis using a u Cons by (simp add: py_int_def)
qed

lemma parse_digits_alphabet:
  "parse_digits b acc s = Some n \<Longrightarrow> c \<in> set s \<Longrightarrow> is_digit c \<or> c = CHR ''_''"
  by (induction s arbitrary: b acc) (auto split: if_splits)

lemma dropWhile_keeps: "c \<in> set s \<Longrightarrow> \<not> P c \<Longrightarrow> c \<in> set (dropWhile P s)"
  by (induction s) auto

lemma py_strip_keeps: "c \<in> set s \<Longrightarrow> \<not> py_isspace c \<Longrightarrow> c \<in> set (py_strip s)"
  by (simp add: py_strip_def dropWhile_keeps)

lemma unsigned_int_alphabet:
  "unsigned_int limit s = Some n \<Longrightarrow> c \<in> set s \<Longrightarrow> is_digit c \<or> c = CHR ''_''"
  by (auto simp: unsigned_int_def split: option.splits if_splits dest: parse_digits_alphabet)

lemma ascii_int_alphabet:
  assumes "c \<in> set s" "\<not> py_isspace c" "c \<notin> set ''0123456789+-_''"
  shows "ascii_int limit s = None"
proof (rule ccontr)
  assume "ascii_int limit s \<noteq> None"
  then obtain v where v: "ascii_int limit s = Some v" by auto
  have c: "c \<in> set (py_strip s)" using assms(1,2) by (rule py_strip_keeps)
  have nd: "\<not> (is_digit c \<or> c = CHR ''_'')" "c \<noteq> CHR ''-''" "c \<noteq> CHR ''+''"
    using assms(3) by (auto simp: is_digit_def)
  from c obtain d ds where s: "py_strip s = d # ds" by (cases "py_strip s") auto
  show False
  proof (cases "d = CHR ''-'' \<or> d = CHR ''+''")
    case True
    with v s obtain n where "unsigned_int limit ds = Some n"
      by (auto simp: ascii_int_def split: if_splits)
    moreover have "c \<in> set ds" using c s True nd by auto
    ultimately show False using unsigned_int_alphabet nd(1) by blast
  next
    case False
    with v s obtain n where "unsigned_int limit (d # ds) = Some n"
      by (auto simp: ascii_int_def split: if_splits)
    moreover have "c \<in> set (d # ds)" using c s by simp
    ultimately show False using unsigned_int_alphabet nd(1) by blast
  qed
qed

lemma py_int_alphabet:
  assumes "list_all is_ascii s" "c \<in> set s" "\<not> py_isspace c" "c \<notin> set ''0123456789+-_''"
  shows "py_int py s = None"
  using assms(1) ascii_int_alphabet [OF assms(2,3,4)] by (simp add: py_int_def)

lemma py_int_examples:
  "py_int py ''7'' = Some 7"
  "py_int py '' 12 '' = Some 12"
  "py_int py ([CHR 0x09] @ ''40'' @ [CHR 0x0A]) = Some 40"
  "py_int py ''-3'' = Some (- 3)"
  "py_int py ''+1_000'' = Some 1000"
  "py_int py ''007'' = Some 7"
  "py_int py ''1234567890'' = Some 1234567890"
  "py_int py [] = None"
  "py_int py ''many'' = None"
  "py_int py ''1.0'' = None"
  "py_int py ''- 3'' = None"
  "py_int py ''1__0'' = None"
  "py_int py (''7'' @ [CHR 0x1C]) = None"
  by (simp_all add: py_int_def ascii_int_def unsigned_int_def over_limit_def py_strip_def
      py_isspace_def is_digit_def digit_value_def is_ascii_def)

subsection \<open>Stock reconciliation\<close>

lemma stock_of_count_policy:
  "stock_of_count py q =
     (case quantity_policy py q of None \<Rightarrow> Inl ValueError | Some n \<Rightarrow> Inr n)"
  by (simp add: stock_of_count_def quantity_policy_def)

lemma stock_of_count_cases:
  "stock_of_count py (Kolichestvo w) =
     (if parses py w then Inr (quantity py w) else Inl ValueError)"
  by (simp add: stock_of_count_policy parses_def quantity_def split: option.splits)

lemma seller_stocks_loop_eq:
  "seller_stocks_loop py ws acc ids =
     (if list_all (parses py) (matched ws ids)
      then Inr (acc @ map (\<lambda>w. \<lparr>stock_offer_id = Kod w, stock = quantity py w\<rparr>) (matched ws ids),
                leftover ws ids)
      else Inl ValueError)"
  by (induction ws arbitrary: acc ids) (simp_all add: stock_of_count_cases)

lemma market_stocks_loop_eq:
  "market_stocks_loop py wh d ws acc ids =
     (if list_all (parses py) (matched ws ids)
      then Inr (acc @
                map (\<lambda>w. \<lparr>sku = Kod w, warehouseId = wh,
                           items = [\<lparr>item_count = quantity py w, item_type = ''FIT'',
                                     updatedAt = d\<rparr>]\<rparr>)
                  (matched ws ids),
                leftover ws ids)
      else Inl ValueError)"
  by (induction ws arbitrary: acc ids) (simp_all add: stock_of_count_cases)

lemma seller_create_stocks_eq:
  "seller_create_stocks py ws ids =
     (if list_all (parses py) (matched ws ids)
      then Inr (map (\<lambda>w. \<lparr>stock_offer_id = Kod w, stock = quantity py w\<rparr>) (matched ws ids) @
                map (\<lambda>i. \<lparr>stock_offer_id = i, stock = 0\<rparr>) (leftover ws ids),
                leftover ws ids)
      else Inl ValueError)"
  by (simp add: seller_create_stocks_def seller_stocks_loop_eq)

lemma market_create_stocks_eq:
  "market_create_stocks py d ws ids wh =
     (if list_all (parses py) (matched ws ids)
      then Inr (map (\<lambda>w. \<lparr>sku = Kod w, warehouseId = wh,
                           items = [\<lparr>item_count = quantity py w, item_type = ''FIT'',
                                     updatedAt = d\<rparr>]\<rparr>)
                  (matched ws ids) @
                map (\<lambda>i. \<lparr>sku = i, warehouseId = wh,
                           items = [\<lparr>item_count = 0, item_type = ''FIT'', updatedAt = d\<rparr>]\<rparr>)
                  (leftover ws ids),
                leftover ws ids)
      else Inl ValueError)"
  by (simp add: market_create_stocks_def market_stocks_loop_eq)

lemma matched_leftover_mset:
  "mset (map Kod (matched ws ids)) + mset (leftover ws ids) = mset ids"
  by (induction ws arbitrary: ids) auto

lemma matched_subset: "w \<in> set (matched ws ids) \<Longrightarrow> w \<in> set ws \<and> Kod w \<in> set ids"
proof (induction ws arbitrary: ids)
  case Nil
  then show ?case by simp
next
  case (Cons v ws)
  show ?case
  proof (cases "Kod v \<in> set ids")
    case True
    with Cons.prems have "w = v \<or> w \<in> set (matched ws (remove1 (Kod v) ids))" by simp
    then show ?thesis
    proof
      assume "w = v" with True show ?thesis by simp
    next
      assume "w \<in> set (matched ws (remove1 (Kod v) ids))"
      then have "w \<in> set ws \<and> Kod w \<in> set (remove1 (Kod v) ids)" by (rule Cons.IH)
      then show ?thesis using set_remove1_subset [of "Kod v" ids] by auto
    qed
  next
    case False
    with Cons.prems have "w \<in> set (matched ws ids)" by simp
    then have "w \<in> set ws \<and> Kod w \<in> set ids" by (rule Cons.IH)
    then show ?thesis by simp
  qed
qed

lemma leftover_subset: "set (leftover ws ids) \<subseteq> set ids"
proof (induction ws arbitrary: ids)
  case Nil
  then show ?case by simp
next
  case (Cons v ws)
  show ?case using Cons.IH [of ids] Cons.IH [of "remove1 (Kod v) ids"]
      set_remove1_subset [of "Kod v" ids] by auto
qed

lemma leftover_distinct: "distinct ids \<Longrightarrow> leftover ws ids = filter (\<lambda>i. i \<notin> Kod ` set ws) ids"
proof (induction ws arbitrary: ids)
  case Nil
  then show ?case by simp
next
  case (Cons v ws)
  show ?case
  proof (cases "Kod v \<in> set ids")
    case True
    have "leftover (v # ws) ids = filter (\<lambda>i. i \<notin> Kod ` set ws) (remove1 (Kod v) ids)"
      using True Cons.IH [of "remove1 (Kod v) ids"] Cons.prems by simp
    also have "remove1 (Kod v) ids = filter (\<lambda>i. i \<noteq> Kod v) ids"
      using Cons.prems
      by (auto simp: distinct_remove1_removeAll removeAll_filter_not_eq intro: filter_cong)
    finally show ?thesis by (auto intro: filter_cong)
  next
    case False
    have "leftover (v # ws) ids = filter (\<lambda>i. i \<notin> Kod ` set ws) ids"
      using False Cons.IH [OF Cons.prems] by simp
    also have "\<dots> = filter (\<lambda>i. i \<notin> Kod ` set (v # ws)) ids"
      using False by (intro filter_cong) auto
    finally show ?thesis .
  qed
qed

lemma matched_first:
  "distinct ids \<Longrightarrow> w \<in> set (matched ws ids) \<Longrightarrow> find (\<lambda>v. Kod v = Kod w) ws = Some w"
proof (induction ws arbitrary: ids)
  case Nil
  then show ?case by simp
next
  case (Cons v ws)
  show ?case
  proof (cases "Kod v \<in> set ids")
    case True
    with Cons.prems(2) have "w = v \<or> w \<in> set (matched ws (remove1 (Kod v) ids))" by simp
    then show ?thesis
    proof
      assume "w = v" then show ?thesis by simp
    next
      assume in_rest: "w \<in> set (matched ws (remove1 (Kod v) ids))"
      have d: "distinct (remove1 (Kod v) ids)" using Cons.prems(1) by simp
      from matched_subset [OF in_rest] have "Kod w \<in> set (remove1 (Kod v) ids)" by simp
      then have "Kod w \<noteq> Kod v" using Cons.prems(1) by auto
      then show ?thesis using Cons.IH [OF d in_rest] by simp
    qed
  next
    case False
    with Cons.prems(2) have in_rest: "w \<in> set (matched ws ids)" by simp
    from matched_subset [OF in_rest] False have "Kod w \<noteq> Kod v" by auto
    then show ?thesis using Cons.IH [OF Cons.prems(1) in_rest] by simp
  qed
qed

lemma find_code_None: "find (\<lambda>v. Kod v = i) ws = None \<longleftrightarrow> i \<notin> Kod ` set ws"
  by (auto simp: find_None_iff)

lemma parses_quantity:
  "parses py w \<Longrightarrow> quantity_policy py (Kolichestvo w) = Some (quantity py w)"
  by (auto simp: parses_def quantity_def)

lemma ids_of_entries:
  assumes "distinct ids"
  shows "distinct (map Kod (matched ws ids) @ leftover ws ids) \<and>
         set (map Kod (matched ws ids) @ leftover ws ids) = set ids"
proof -
  have m: "mset (map Kod (matched ws ids) @ leftover ws ids) = mset ids"
    using matched_leftover_mset [of ws ids] by simp
  from m have "distinct (map Kod (matched ws ids) @ leftover ws ids) = distinct ids"
    by (rule mset_eq_imp_distinct_iff)
  moreover from m have "set (map Kod (matched ws ids) @ leftover ws ids) = set ids"
    by (rule mset_eq_setD)
  ultimately show ?thesis using assms by simp
qed

lemma all_parse_matched:
  assumes "\<forall>w \<in> set ws. Kod w \<in> set ids \<longrightarrow> quantity_policy py (Kolichestvo w) \<noteq> None"
  shows "list_all (parses py) (matched ws ids)"
  using assms matched_subset [of _ ws ids] by (auto simp: list_all_iff parses_def)

lemma source_of_matched:
  assumes "distinct ids" "list_all (parses py) (matched ws ids)" "w \<in> set (matched ws ids)"
  shows "(case find (\<lambda>v. Kod v = Kod w) ws of
            Some v \<Rightarrow> quantity_policy py (Kolichestvo v) = Some (quantity py w)
          | None \<Rightarrow> quantity py w = 0)"
proof -
  have "find (\<lambda>v. Kod v = Kod w) ws = Some w" using assms(1,3) by (rule matched_first)
  moreover have "parses py w" using assms(2,3) by (simp add: list_all_iff)
  ultimately show ?thesis by (simp add: parses_quantity)
qed

lemma source_of_leftover:
  assumes "distinct ids" "i \<in> set (leftover ws ids)"
  shows "find (\<lambda>v. Kod v = i) ws = None"
  using assms by (simp add: leftover_distinct find_code_None)

text \<open>
  C1. For every list of inventory rows and every duplicate-free list of known offer
  identifiers, the list that \<open>create_stocks\<close> returns (in either module) has exactly one
  entry per known identifier and no entry for any other: the entries' identifiers are
  pairwise different and are the known ones. The entry of an identifier that some row
  carries has the quantity derived from the first such row; the entry of an identifier that
  no row carries has quantity 0. A market entry has the warehouse, one item with that
  quantity, the type FIT and the time stamp of the call. The call returns whenever every
  row with a known code has a quantity the policy accepts.
\<close>

theorem create_stocks_one_entry_per_offer:
  assumes "distinct offer_ids"
  shows
  "((\<forall>w \<in> set ws. Kod w \<in> set offer_ids \<longrightarrow> quantity_policy py (Kolichestvo w) \<noteq> None) \<longrightarrow>
      (\<exists>r. seller_create_stocks py ws offer_ids = Inr r) \<and>
      (\<exists>r. market_create_stocks py date ws offer_ids wh = Inr r)) \<and>
   (seller_create_stocks py ws offer_ids = Inr (stocks, left) \<longrightarrow>
      distinct (map stock_offer_id stocks) \<and>
      set (map stock_offer_id stocks) = set offer_ids \<and>
      (\<forall>s \<in> set stocks.
         case find (\<lambda>w. Kod w = stock_offer_id s) ws of
           Some w \<Rightarrow> quantity_policy py (Kolichestvo w) = Some (stock s)
         | None \<Rightarrow> stock s = 0)) \<and>
   (market_create_stocks py date ws offer_ids wh = Inr (mstocks, mleft) \<longrightarrow>
      distinct (map sku mstocks) \<and>
      set (map sku mstocks) = set offer_ids \<and>
      (\<forall>s \<in> set mstocks.
         warehouseId s = wh \<and>
         (\<exists>n. items s = [\<lparr>item_count = n, item_type = ''FIT'', updatedAt = date\<rparr>] \<and>
           (case find (\<lambda>w. Kod w = sku s) ws of
              Some w \<Rightarrow> quantity_policy py (Kolichestvo w) = Some n
            | None \<Rightarrow> n = 0))))"
proof -
  have total: "(\<forall>w \<in> set ws. Kod w \<in> set offer_ids \<longrightarrow> quantity_policy py (Kolichestvo w) \<noteq> None) \<longrightarrow>
      (\<exists>r. seller_create_stocks py ws offer_ids = Inr r) \<and>
      (\<exists>r. market_create_stocks py date ws offer_ids wh = Inr r)"
    using all_parse_matched [of ws offer_ids py]
    by (simp add: seller_create_stocks_eq market_create_stocks_eq)
  have seller: "distinct (map stock_offer_id stocks) \<and>
      set (map stock_offer_id stocks) = set offer_ids \<and>
      (\<forall>s \<in> set stocks.
         case find (\<lambda>w. Kod w = stock_offer_id s) ws of
           Some w \<Rightarrow> quantity_policy py (Kolichestvo w) = Some (stock s)
         | None \<Rightarrow> stock s = 0)"
    if run: "seller_create_stocks py ws offer_ids = Inr (stocks, left)"
  proof -
    from run have ok: "list_all (parses py) (matched ws offer_ids)"
      and st: "stocks =
          map (\<lambda>w. \<lparr>stock_offer_id = Kod w, stock = quantity py w\<rparr>) (matched ws offer_ids) @
          map (\<lambda>i. \<lparr>stock_offer_id = i, stock = 0\<rparr>) (leftover ws offer_ids)"
      by (auto simp: seller_create_stocks_eq split: if_splits)
    have ids: "map stock_offer_id stocks = map Kod (matched ws offer_ids) @ leftover ws offer_ids"
      by (simp add: st comp_def)
    have each: "case find (\<lambda>w. Kod w = stock_offer_id s) ws of
           Some w \<Rightarrow> quantity_policy py (Kolichestvo w) = Some (stock s)
         | None \<Rightarrow> stock s = 0" if "s \<in> set stocks" for s
    proof -
      from that st consider
        w where "w \<in> set (matched ws offer_ids)"
          "s = \<lparr>stock_offer_id = Kod w, stock = quantity py w\<rparr>"
        | i where "i \<in> set (leftover ws offer_ids)" "s = \<lparr>stock_offer_id = i, stock = 0\<rparr>"
        by auto
      then show ?thesis
      proof cases
        case 1
        then show ?thesis using source_of_matched [OF assms ok 1(1)]
          by (auto split: option.splits)
      next
        case 2
        then show ?thesis using source_of_leftover [OF assms 2(1)] by simp
      qed
    qed
    from ids ids_of_entries [OF assms, of ws] each show ?thesis by simp
  qed
  have market: "distinct (map sku mstocks) \<and>
      set (map sku mstocks) = set offer_ids \<and>
      (\<forall>s \<in> set mstocks.
         warehouseId s = wh \<and>
         (\<exists>n. items s = [\<lparr>item_count = n, item_type = ''FIT'', updatedAt = date\<rparr>] \<and>
           (case find (\<lambda>w. Kod w = sku s) ws of
              Some w \<Rightarrow> quantity_policy py (Kolichestvo w) = Some n
            | None \<Rightarrow> n = 0)))"
    if run: "market_create_stocks py date ws offer_ids wh = Inr (mstocks, mleft)"
  proof -
    from run have ok: "list_all (parses py) (matched ws offer_ids)"
      and st: "mstocks =
          map (\<lambda>w. \<lparr>sku = Kod w, warehouseId = wh,
                     items = [\<lparr>item_count = quantity py w, item_type = ''FIT'',
                               updatedAt = date\<rparr>]\<rparr>)
            (matched ws offer_ids) @
          map (\<lambda>i. \<lparr>sku = i, warehouseId = wh,
                     items = [\<lparr>item_count = 0, item_type = ''FIT'', updatedAt = date\<rparr>]\<rparr>)
            (leftover ws offer_ids)"
      by (auto simp: market_create_stocks_eq split: if_splits)
    have ids: "map sku mstocks = map Kod (matched ws offer_ids) @ leftover ws offer_ids"
      by (simp add: st comp_def)
    have each: "warehouseId s = wh \<and>
         (\<exists>n. items s = [\<lparr>item_count = n, item_type = ''FIT'', updatedAt = date\<rparr>] \<and>
           (case find (\<lambda>w. Kod w = sku s) ws of
              Some w \<Rightarrow> quantity_policy py (Kolichestvo w) = Some n
            | None \<Rightarrow> n = 0))" if "s \<in> set mstocks" for s
    proof -
      from that st consider
        w where "w \<in> set (matched ws offer_ids)"
          "s = \<lparr>sku = Kod w, warehouseId = wh,
                items = [\<lparr>item_count = quantity py w, item_type = ''FIT'',
                          updatedAt = date\<rparr>]\<rparr>"
        | i where "i \<in> set (leftover ws offer_ids)"
          "s = \<lparr>sku = i, warehouseId = wh,
                items = [\<lparr>item_count = 0, item_type = ''FIT'', updatedAt = date\<rparr>]\<rparr>"
        by auto
      then show ?thesis
      proof cases
        case 1
        then show ?thesis using source_of_matched [OF assms ok 1(1)]
          by (auto split: option.splits)
      next
        case 2
        then show ?thesis using source_of_leftover [OF assms 2(1)] by simp
      qed
    qed
    from ids ids_of_entries [OF assms, of ws] each show ?thesis by simp
  qed
  from total seller market show ?thesis by blast
qed

theorem create_stocks_one_entry_per_offer_witness:
  "seller_create_stocks py_default [row_seven] scenario_offers =
     Inr ([\<lparr>stock_offer_id = ''A'', stock = 7\<rparr>, \<lparr>stock_offer_id = ''B'', stock = 0\<rparr>,
           \<lparr>stock_offer_id = ''C'', stock = 0\<rparr>], [''B'', ''C'']) \<and>
   set (map stock_offer_id
     [\<lparr>stock_offer_id = ''A'', stock = 7\<rparr>, \<lparr>stock_offer_id = ''B'', stock = 0\<rparr>,
      \<lparr>stock_offer_id = ''C'', stock = 0\<rparr>]) = set scenario_offers \<and>
   market_create_stocks py_default ''2024-01-01T00:00:00Z'' [row_seven] scenario_offers ''w1'' =
     Inr ([\<lparr>sku = ''A'', warehouseId = ''w1'',
            items = [\<lparr>item_count = 7, item_type = ''FIT'',
                      updatedAt = ''2024-01-01T00:00:00Z''\<rparr>]\<rparr>,
           \<lparr>sku = ''B'', warehouseId = ''w1'',
            items = [\<lparr>item_count = 0, item_type = ''FIT'',
                      updatedAt = ''2024-01-01T00:00:00Z''\<rparr>]\<rparr>,
           \<lparr>sku = ''C'', warehouseId = ''w1'',
            items = [\<lparr>item_count = 0, item_type = ''FIT'',
                      updatedAt = ''2024-01-01T00:00:00Z''\<rparr>]\<rparr>], [''B'', ''C''])"
proof -
  have d: "distinct scenario_offers" by (simp add: scenario_offers_def)
  have seven: "py_int py_default ''7'' = Some 7" by (rule py_int_examples)
  have run: "seller_create_stocks py_default [row_seven] scenario_offers =
     Inr ([\<lparr>stock_offer_id = ''A'', stock = 7\<rparr>, \<lparr>stock_offer_id = ''B'', stock = 0\<rparr>,
           \<lparr>stock_offer_id = ''C'', stock = 0\<rparr>], [''B'', ''C''])"
    by (simp add: seller_create_stocks_def row_seven_def scenario_offers_def
        stock_of_count_def seven)
  have mrun: "market_create_stocks py_default ''2024-01-01T00:00:00Z'' [row_seven]
       scenario_offers ''w1'' =
     Inr ([\<lparr>sku = ''A'', warehouseId = ''w1'',
            items = [\<lparr>item_count = 7, item_type = ''FIT'',
                      updatedAt = ''2024-01-01T00:00:00Z''\<rparr>]\<rparr>,
           \<lparr>sku = ''B'', warehouseId = ''w1'',
            items = [\<lparr>item_count = 0, item_type = ''FIT'',
                      updatedAt = ''2024-01-01T00:00:00Z''\<rparr>]\<rparr>,
           \<lparr>sku = ''C'', warehouseId = ''w1'',
            items = [\<lparr>item_count = 0, item_type = ''FIT'',
                      updatedAt = ''2024-01-01T00:00:00Z''\<rparr>]\<rparr>], [''B'', ''C''])"
    by (simp add: market_create_stocks_def row_seven_def scenario_offers_def
        stock_of_count_def seven)
  from create_stocks_one_entry_per_offer
         [OF d, of "[row_seven]" py_default _ _ _ "[''B'', ''C'']"] run mrun
  show ?thesis by blast
qed

text \<open>
  C2. Both \<open>create_stocks\<close> emit, for every row their first loop matches, the quantity of
  the policy, and fail with ValueError as soon as one matched row has no such quantity:
  \<open>>10\<close> gives 100, \<open>1\<close> gives 0, \<open>7\<close> gives 7, and any other text gives what \<open>int\<close> reads
  from it, or the failure when \<open>int\<close> rejects it. What \<open>int\<close> reads: a text of decimal digits
  denotes its number (unless it is longer than the interpreter's limit allows); white space
  around the number, a sign and single underscores between digits are accepted; ASCII text
  with a character that is none of these is rejected, as are the empty text and a text with
  the control character 0x1C after the number.
\<close>

theorem stock_quantity_policy:
  "seller_create_stocks py ws ids =
     (if list_all (parses py) (matched ws ids)
      then Inr (map (\<lambda>w. \<lparr>stock_offer_id = Kod w, stock = quantity py w\<rparr>) (matched ws ids) @
                map (\<lambda>i. \<lparr>stock_offer_id = i, stock = 0\<rparr>) (leftover ws ids),
                leftover ws ids)
      else Inl ValueError) \<and>
   market_create_stocks py date ws ids wh =
     (if list_all (parses py) (matched ws ids)
      then Inr (map (\<lambda>w. \<lparr>sku = Kod w, warehouseId = wh,
                           items = [\<lparr>item_count = quantity py w, item_type = ''FIT'',
                                     updatedAt = date\<rparr>]\<rparr>)
                  (matched ws ids) @
                map (\<lambda>i. \<lparr>sku = i, warehouseId = wh,
                           items = [\<lparr>item_count = 0, item_type = ''FIT'',
                                     updatedAt = date\<rparr>]\<rparr>)
                  (leftover ws ids),
                leftover ws ids)
      else Inl ValueError) \<and>
   (Kolichestvo w = ''>10'' \<longrightarrow> parses py w \<and> quantity py w = 100) \<and>
   (Kolichestvo w = ''1'' \<longrightarrow> parses py w \<and> quantity py w = 0) \<and>
   (Kolichestvo w = ''7'' \<longrightarrow> parses py w \<and> quantity py w = 7) \<and>
   (Kolichestvo w \<noteq> ''>10'' \<and> Kolichestvo w \<noteq> ''1'' \<longrightarrow>
      (parses py w \<longleftrightarrow> py_int py (Kolichestvo w) \<noteq> None) \<and>
      (\<forall>n. py_int py (Kolichestvo w) = Some n \<longrightarrow> quantity py w = n)) \<and>
   (q \<noteq> [] \<and> set q \<subseteq> set ''0123456789'' \<longrightarrow>
      py_int py q =
        (if 640 < length q \<and> 0 < max_str_digits py \<and> max_str_digits py < length q then None
         else Some (int (decimal q)))) \<and>
   ((\<forall>c \<in> set q. (of_char c :: nat) < 128) \<and>
    (\<exists>c \<in> set q. c \<notin> set (''0123456789+-_ '' @
                              [CHR 0x09, CHR 0x0A, CHR 0x0B, CHR 0x0C, CHR 0x0D])) \<longrightarrow>
      py_int py q = None) \<and>
   py_int py '' 12 '' = Some 12 \<and>
   py_int py ([CHR 0x09] @ ''40'' @ [CHR 0x0A]) = Some 40 \<and>
   py_int py ''-3'' = Some (- 3) \<and>
   py_int py ''+1_000'' = Some 1000 \<and>
   py_int py ''007'' = Some 7 \<and>
   py_int py ''1234567890'' = Some 1234567890 \<and>
   py_int py [] = None \<and>
   py_int py ''many'' = None \<and>
   py_int py ''- 3'' = None \<and>
   py_int py ''1__0'' = None \<and>
   py_int py (''7'' @ [CHR 0x1C]) = None"
proof -
  have seven: "py_int py ''7'' = Some 7" by (rule py_int_examples)
  have a: "Kolichestvo w = ''>10'' \<longrightarrow> parses py w \<and> quantity py w = 100"
    by (simp add: parses_def quantity_def quantity_policy_def)
  have b: "Kolichestvo w = ''1'' \<longrightarrow> parses py w \<and> quantity py w = 0"
    by (simp add: parses_def quantity_def quantity_policy_def)
  have c: "Kolichestvo w = ''7'' \<longrightarrow> parses py w \<and> quantity py w = 7"
    by (simp add: parses_def quantity_def quantity_policy_def seven)
  have d: "Kolichestvo w \<noteq> ''>10'' \<and> Kolichestvo w \<noteq> ''1'' \<longrightarrow>
      (parses py w \<longleftrightarrow> py_int py (Kolichestvo w) \<noteq> None) \<and>
      (\<forall>n. py_int py (Kolichestvo w) = Some n \<longrightarrow> quantity py w = n)"
    by (simp add: parses_def quantity_def quantity_policy_def)
  have e: "q \<noteq> [] \<and> set q \<subseteq> set ''0123456789'' \<longrightarrow>
      py_int py q =
        (if 640 < length q \<and> 0 < max_str_digits py \<and> max_str_digits py < length q then None
         else Some (int (decimal q)))"
  proof
    assume h: "q \<noteq> [] \<and> set q \<subseteq> set ''0123456789''"
    then have "\<forall>c \<in> set q. is_digit c" unfolding is_digit_def by blast
    then show "py_int py q =
        (if 640 < length q \<and> 0 < max_str_digits py \<and> max_str_digits py < length q then None
         else Some (int (decimal q)))"
      using h by (simp add: py_int_digits over_limit_def)
  qed
  have f: "(\<forall>c \<in> set q. (of_char c :: nat) < 128) \<and>
    (\<exists>c \<in> set q. c \<notin> set (''0123456789+-_ '' @
                              [CHR 0x09, CHR 0x0A, CHR 0x0B, CHR 0x0C, CHR 0x0D])) \<longrightarrow>
      py_int py q = None"
  proof
    assume h: "(\<forall>c \<in> set q. (of_char c :: nat) < 128) \<and>
      (\<exists>c \<in> set q. c \<notin> set (''0123456789+-_ '' @
                              [CHR 0x09, CHR 0x0A, CHR 0x0B, CHR 0x0C, CHR 0x0D]))"
    then have asc: "list_all is_ascii q" by (simp add: list_all_iff is_ascii_def)
    from h obtain c where c: "c \<in> set q"
      "c \<notin> set (''0123456789+-_ '' @ [CHR 0x09, CHR 0x0A, CHR 0x0B, CHR 0x0C, CHR 0x0D])"
      by blast
    from c(2) have "\<not> py_isspace c" "c \<notin> set ''0123456789+-_''"
      by (auto simp: py_isspace_def)
    with asc c(1) show "py_int py q = None" by (rule py_int_alphabet)
  qed
  note ex = py_int_examples [of py]
  from a b c d e f ex seller_create_stocks_eq [of py ws ids]
    market_create_stocks_eq [of py date ws ids wh]
  show ?thesis by blast
qed

theorem stock_quantity_policy_witness:
  "seller_create_stocks py_default [scenario_row, row_many] scenario_offers = Inl ValueError \<and>
   market_create_stocks py_default ''t'' [scenario_row, row_many] scenario_offers ''w'' =
     Inl ValueError \<and>
   seller_create_stocks py_default [row_seven] scenario_offers =
     Inr ([\<lparr>stock_offer_id = ''A'', stock = 7\<rparr>, \<lparr>stock_offer_id = ''B'', stock = 0\<rparr>,
           \<lparr>stock_offer_id = ''C'', stock = 0\<rparr>], [''B'', ''C'']) \<and>
   market_create_stocks py_default ''t'' [scenario_row] scenario_offers ''w'' =
     Inr ([\<lparr>sku = ''A'', warehouseId = ''w'',
            items = [\<lparr>item_count = 100, item_type = ''FIT'', updatedAt = ''t''\<rparr>]\<rparr>,
           \<lparr>sku = ''B'', warehouseId = ''w'',
            items = [\<lparr>item_count = 0, item_type = ''FIT'', updatedAt = ''t''\<rparr>]\<rparr>,
           \<lparr>sku = ''C'', warehouseId = ''w'',
            items = [\<lparr>item_count = 0, item_type = ''FIT'', updatedAt = ''t''\<rparr>]\<rparr>],
          [''B'', ''C''])"
proof -
  have m1: "matched [scenario_row, row_many] scenario_offers = [scenario_row, row_many]"
    by (simp add: scenario_row_def row_many_def scenario_offers_def)
  have many: "py_int py_default (Kolichestvo row_many) = None"
    using stock_quantity_policy [of py_default] by (simp add: row_many_def)
  have p1: "\<not> parses py_default row_many"
    using stock_quantity_policy [of py_default _ _ _ _ row_many] many
    by (simp add: row_many_def)
  have m2: "matched [row_seven] scenario_offers = [row_seven]"
    and l2: "leftover [row_seven] scenario_offers = [''B'', ''C'']"
    by (simp_all add: row_seven_def scenario_offers_def)
  have p2: "parses py_default row_seven \<and> quantity py_default row_seven = 7"
    using stock_quantity_policy [of py_default _ _ _ _ row_seven] by (simp add: row_seven_def)
  have m3: "matched [scenario_row] scenario_offers = [scenario_row]"
    and l3: "leftover [scenario_row] scenario_offers = [''B'', ''C'']"
    by (simp_all add: scenario_row_def scenario_offers_def)
  have p3: "parses py_default scenario_row \<and> quantity py_default scenario_row = 100"
    using stock_quantity_policy [of py_default _ _ _ _ scenario_row]
    by (simp add: scenario_row_def)
  have "seller_create_stocks py_default [scenario_row, row_many] scenario_offers = Inl ValueError"
    using stock_quantity_policy [of py_default "[scenario_row, row_many]" scenario_offers]
      m1 p1 by simp
  moreover have "market_create_stocks py_default ''t'' [scenario_row, row_many]
      scenario_offers ''w'' = Inl ValueError"
    using stock_quantity_policy
      [of py_default "[scenario_row, row_many]" scenario_offers "''t''" "''w''"] m1 p1 by simp
  moreover have "seller_create_stocks py_default [row_seven] scenario_offers =
     Inr ([\<lparr>stock_offer_id = ''A'', stock = 7\<rparr>, \<lparr>stock_offer_id = ''B'', stock = 0\<rparr>,
           \<lparr>stock_offer_id = ''C'', stock = 0\<rparr>], [''B'', ''C''])"
    using stock_quantity_policy [of py_default "[row_seven]" scenario_offers] m2 l2 p2
    by (simp add: row_seven_def)
  moreover have "market_create_stocks py_default ''t'' [scenario_row] scenario_offers ''w'' =
     Inr ([\<lparr>sku = ''A'', warehouseId = ''w'',
            items = [\<lparr>item_count = 100, item_type = ''FIT'', updatedAt = ''t''\<rparr>]\<rparr>,
           \<lparr>sku = ''B'', warehouseId = ''w'',
            items = [\<lparr>item_count = 0, item_type = ''FIT'', updatedAt = ''t''\<rparr>]\<rparr>,
           \<lparr>sku = ''C'', warehouseId = ''w'',
            items = [\<lparr>item_count = 0, item_type = ''FIT'', updatedAt = ''t''\<rparr>]\<rparr>],
          [''B'', ''C''])"
    using stock_quantity_policy
      [of py_default "[scenario_row]" scenario_offers "''t''" "''w''"] m3 l3 p3
    by (simp add: scenario_row_def)
  ultimately show ?thesis by blast
qed

subsection \<open>Price reconciliation\<close>

lemma seller_prices_loop_eq:
  "seller_prices_loop ws acc ids =
     Inr (acc @
          map (\<lambda>w. \<lparr>auto_action_enabled = ''UNKNOWN'', currency_code = ''RUB'',
                     price_offer_id = Kod w, old_price = ''0'',
                     price = digits_only (before_first_point (Tsena w))\<rparr>)
            (filter (\<lambda>w. Kod w \<in> set ids) ws))"
  by (induction ws arbitrary: acc) (simp_all add: price_conversion_eq)

lemma py_int_price:
  "py_int py (digits_only (before_first_point (Tsena w))) =
     (if int_accepts_price py w then Some (market_value w) else None)"
proof -
  have "\<forall>c \<in> set (price_digits w). is_digit c"
    by (simp add: price_digits_def digits_only_def)
  then have "py_int py (price_digits w) =
           (if price_digits w = [] \<or> over_limit (max_str_digits py) (length (price_digits w))
            then None else Some (int (decimal (price_digits w))))"
    by (rule py_int_digits)
  then show ?thesis
    by (auto simp: int_accepts_price_def market_value_def over_limit_def price_digits_def)
qed

lemma market_prices_loop_eq:
  "market_prices_loop py ws acc ids =
     (if list_all (int_accepts_price py) (filter (\<lambda>w. Kod w \<in> set ids) ws)
      then Inr (acc @
                map (\<lambda>w. \<lparr>price_id = Kod w,
                           price_body = \<lparr>price_value = market_value w, currencyId = ''RUR''\<rparr>\<rparr>)
                  (filter (\<lambda>w. Kod w \<in> set ids) ws))
      else Inl ValueError)"
  by (induction ws arbitrary: acc) (simp_all add: price_conversion_eq py_int_price)

lemma seller_create_prices_eq:
  "seller_create_prices ws ids =
     Inr (map (\<lambda>w. \<lparr>auto_action_enabled = ''UNKNOWN'', currency_code = ''RUB'',
                     price_offer_id = Kod w, old_price = ''0'',
                     price = digits_only (before_first_point (Tsena w))\<rparr>)
            (filter (\<lambda>w. Kod w \<in> set ids) ws), ids)"
  by (simp add: seller_create_prices_def seller_prices_loop_eq)

lemma market_create_prices_eq:
  "market_create_prices py ws ids =
     (if list_all (int_accepts_price py) (filter (\<lambda>w. Kod w \<in> set ids) ws)
      then Inr (map (\<lambda>w. \<lparr>price_id = Kod w,
                           price_body = \<lparr>price_value = market_value w, currencyId = ''RUR''\<rparr>\<rparr>)
                  (filter (\<lambda>w. Kod w \<in> set ids) ws), ids)
      else Inl ValueError)"
  by (simp add: market_create_prices_def market_prices_loop_eq)

lemma codes_of_matching_rows:
  "map Kod (filter (\<lambda>w. Kod w \<in> set ids) ws) = filter (\<lambda>i. i \<in> set ids) (map Kod ws)"
  by (induction ws) auto

text \<open>
  C6. \<open>create_prices\<close> emits one price update per inventory row whose code is in the offer
  list, in the order of the rows, each with the code of its row as identifier and the price
  read from that row, and nothing else (no entry for an identifier that no row carries),
  and leaves the offer list as it was. seller.create_prices always returns;
  market.create_prices returns when \<open>int\<close> accepts the digits of every such row's price
  (and raises ValueError otherwise, see C10).
\<close>

theorem create_prices_matched_rows_only:
  "seller_create_prices ws ids =
     Inr (map (\<lambda>w. \<lparr>auto_action_enabled = ''UNKNOWN'', currency_code = ''RUB'',
                     price_offer_id = Kod w, old_price = ''0'',
                     price = digits_only (before_first_point (Tsena w))\<rparr>)
            (filter (\<lambda>w. Kod w \<in> set ids) ws), ids) \<and>
   market_create_prices py ws ids =
     (if list_all (int_accepts_price py) (filter (\<lambda>w. Kod w \<in> set ids) ws)
      then Inr (map (\<lambda>w. \<lparr>price_id = Kod w,
                           price_body = \<lparr>price_value = market_value w, currencyId = ''RUR''\<rparr>\<rparr>)
                  (filter (\<lambda>w. Kod w \<in> set ids) ws), ids)
      else Inl ValueError) \<and>
   (seller_create_prices ws ids = Inr (prices, left) \<longrightarrow>
      left = ids \<and>
      map price_offer_id prices = filter (\<lambda>i. i \<in> set ids) (map Kod ws)) \<and>
   (market_create_prices py ws ids = Inr (mprices, mleft) \<longrightarrow>
      mleft = ids \<and>
      map price_id mprices = filter (\<lambda>i. i \<in> set ids) (map Kod ws))"
proof -
  have a: "left = ids \<and> map price_offer_id prices = filter (\<lambda>i. i \<in> set ids) (map Kod ws)"
    if "seller_create_prices ws ids = Inr (prices, left)"
    using that codes_of_matching_rows [of ids ws]
    by (auto simp: seller_create_prices_eq comp_def)
  have b: "mleft = ids \<and> map price_id mprices = filter (\<lambda>i. i \<in> set ids) (map Kod ws)"
    if "market_create_prices py ws ids = Inr (mprices, mleft)"
    using that codes_of_matching_rows [of ids ws]
    by (auto simp: market_create_prices_eq comp_def split: if_splits)
  from a b seller_create_prices_eq [of ws ids] market_create_prices_eq [of py ws ids]
  show ?thesis by blast
qed

theorem create_prices_matched_rows_only_witness:
  "seller_create_prices [row_seven, row_many] [''C'', ''A''] =
     Inr ([\<lparr>auto_action_enabled = ''UNKNOWN'', currency_code = ''RUB'',
            price_offer_id = ''A'', old_price = ''0'', price = ''5990''\<rparr>], [''C'', ''A'']) \<and>
   market_create_prices py_default [row_seven, row_many] [''C'', ''A''] =
     Inr ([\<lparr>price_id = ''A'',
            price_body = \<lparr>price_value = 5990, currencyId = ''RUR''\<rparr>\<rparr>], [''C'', ''A''])"
proof -
  have f: "filter (\<lambda>w. Kod w \<in> set [''C'', ''A'']) [row_seven, row_many] = [row_seven]"
    by (simp add: row_seven_def row_many_def)
  have d: "digits_only (before_first_point (Tsena row_seven)) = ''5990''"
    by (simp add: digits_only_def before_first_point_def row_seven_def rub_def is_digit_def)
  have v: "market_value row_seven = 5990"
    by (simp add: market_value_def price_digits_def d decimal_def digit_value_def)
  have h: "int_accepts_price py_default row_seven"
    by (simp add: int_accepts_price_def price_digits_def d)
  have k: "Kod row_seven = ''A''" by (simp add: row_seven_def)
  note t = create_prices_matched_rows_only [of "[row_seven, row_many]" "[''C'', ''A'']" py_default,
      unfolded f]
  from t show ?thesis by (simp add: d v h k)
qed

text \<open>
  C10. When a row whose code is in the offer list has a price with no digit before its
  first point, \<open>price_conversion\<close> gives the empty text for it, \<open>int\<close> rejects the empty
  text, so market.create_prices raises ValueError, while seller.create_prices returns and
  its list holds the entry of that row, whose \<open>price\<close> is the empty text.
\<close>

theorem create_prices_empty_price:
  assumes "w \<in> set ws" and "Kod w \<in> set ids"
    and "\<forall>c \<in> set (before_first_point (Tsena w)). c \<notin> set ''0123456789''"
  shows "price_conversion (Tsena w) = Inr [] \<and> py_int py [] = None \<and>
         market_create_prices py ws ids = Inl ValueError \<and>
         (\<exists>prices. seller_create_prices ws ids = Inr (prices, ids) \<and>
            \<lparr>auto_action_enabled = ''UNKNOWN'', currency_code = ''RUB'',
             price_offer_id = Kod w, old_price = ''0'', price = []\<rparr> \<in> set prices)"
proof -
  have e: "digits_only (before_first_point (Tsena w)) = []"
    using assms(3) by (simp add: digits_only_def filter_empty_conv is_digit_def)
  have a: "price_conversion (Tsena w) = Inr []"
    by (simp add: price_conversion_eq e)
  have b: "py_int py [] = None" by (rule py_int_examples)
  have m: "w \<in> set (filter (\<lambda>w. Kod w \<in> set ids) ws)"
    using assms(1,2) by simp
  have "\<not> int_accepts_price py w"
    by (simp add: int_accepts_price_def price_digits_def e)
  with m have "\<not> list_all (int_accepts_price py) (filter (\<lambda>w. Kod w \<in> set ids) ws)"
    by (auto simp: list_all_iff)
  then have c: "market_create_prices py ws ids = Inl ValueError"
    by (simp add: market_create_prices_eq)
  have "\<lparr>auto_action_enabled = ''UNKNOWN'', currency_code = ''RUB'',
         price_offer_id = Kod w, old_price = ''0'', price = []\<rparr> \<in>
        set (map (\<lambda>w. \<lparr>auto_action_enabled = ''UNKNOWN'', currency_code = ''RUB'',
                       price_offer_id = Kod w, old_price = ''0'',
                       price = digits_only (before_first_point (Tsena w))\<rparr>)
              (filter (\<lambda>w. Kod w \<in> set ids) ws))"
    using m e by force
  then have d: "\<exists>prices. seller_create_prices ws ids = Inr (prices, ids) \<and>
            \<lparr>auto_action_enabled = ''UNKNOWN'', currency_code = ''RUB'',
             price_offer_id = Kod w, old_price = ''0'', price = []\<rparr> \<in> set prices"
    by (simp add: seller_create_prices_eq)
  from a b c d show ?thesis by blast
qed

theorem create_prices_empty_price_witness:
  "market_create_prices py_default [row_seven, row_nodigit] scenario_offers = Inl ValueError \<and>
   seller_create_prices [row_seven, row_nodigit] scenario_offers =
     Inr ([\<lparr>auto_action_enabled = ''UNKNOWN'', currency_code = ''RUB'',
            price_offer_id = ''A'', old_price = ''0'', price = ''5990''\<rparr>,
           \<lparr>auto_action_enabled = ''UNKNOWN'', currency_code = ''RUB'',
            price_offer_id = ''B'', old_price = ''0'', price = []\<rparr>], scenario_offers)"
proof -
  have 1: "row_nodigit \<in> set [row_seven, row_nodigit]" by simp
  have 2: "Kod row_nodigit \<in> set scenario_offers"
    by (simp add: row_nodigit_def scenario_offers_def)
  have 3: "\<forall>c \<in> set (before_first_point (Tsena row_nodigit)). c \<notin> set ''0123456789''"
    by (simp add: row_nodigit_def before_first_point_def)
  have "seller_create_prices [row_seven, row_nodigit] scenario_offers =
     Inr ([\<lparr>auto_action_enabled = ''UNKNOWN'', currency_code = ''RUB'',
            price_offer_id = ''A'', old_price = ''0'', price = ''5990''\<rparr>,
           \<lparr>auto_action_enabled = ''UNKNOWN'', currency_code = ''RUB'',
            price_offer_id = ''B'', old_price = ''0'', price = []\<rparr>], scenario_offers)"
    by (simp add: seller_create_prices_def row_seven_def row_nodigit_def scenario_offers_def
        price_conversion_def py_split_def is_digit_def rub_def)
  with create_prices_empty_price [OF 1 2 3, of py_default] show ?thesis by simp
qed

subsection \<open>Running the stock reconciliation twice\<close>

lemma restamp_entry:
  "restamp d \<lparr>sku = c, warehouseId = wh,
              items = [\<lparr>item_count = n, item_type = ''FIT'', updatedAt = d'\<rparr>]\<rparr> =
   \<lparr>sku = c, warehouseId = wh, items = [\<lparr>item_count = n, item_type = ''FIT'', updatedAt = d\<rparr>]\<rparr>"
  by (simp add: restamp_def)

lemma no_entries_iff: "matched ws ids = [] \<and> leftover ws ids = [] \<longleftrightarrow> ids = []"
proof -
  have h: "mset (map Kod (matched ws ids)) + mset (leftover ws ids) = mset ids"
    by (rule matched_leftover_mset)
  show ?thesis
  proof
    assume "matched ws ids = [] \<and> leftover ws ids = []"
    with h show "ids = []" by simp
  next
    assume "ids = []"
    with h show "matched ws ids = [] \<and> leftover ws ids = []" by simp
  qed
qed

text \<open>
  C5, as amended. Two runs of \<open>create_stocks\<close> on the same inventory rows and the same
  offer list give the same list in the same order in the Ozon module. In the market module
  the two lists agree entry by entry in everything but the \<open>updatedAt\<close> stamp, which is the
  clock reading of each run: the results are equal exactly when the two readings are
  equal, the offer list is empty, or the runs fail.
\<close>

theorem create_stocks_twice_up_to_stamp:
  "(let first_run = seller_create_stocks py ws ids; second_run = seller_create_stocks py ws ids
    in first_run = second_run) \<and>
   market_create_stocks py d1 ws ids wh =
     map_sum id (map_prod (map (restamp d1)) id) (market_create_stocks py d2 ws ids wh) \<and>
   (market_create_stocks py d1 ws ids wh = market_create_stocks py d2 ws ids wh) =
     (d1 = d2 \<or> ids = [] \<or> market_create_stocks py d2 ws ids wh = Inl ValueError)"
proof -
  have a: "market_create_stocks py d1 ws ids wh =
     map_sum id (map_prod (map (restamp d1)) id) (market_create_stocks py d2 ws ids wh)"
    by (simp add: market_create_stocks_eq restamp_entry comp_def)
  have b: "(market_create_stocks py d1 ws ids wh = market_create_stocks py d2 ws ids wh) =
     (d1 = d2 \<or> ids = [] \<or> market_create_stocks py d2 ws ids wh = Inl ValueError)"
  proof (cases "list_all (parses py) (matched ws ids)")
    case False
    then show ?thesis by (simp add: market_create_stocks_eq)
  next
    case True
    show ?thesis
    proof (cases "ids = []")
      case True
      then show ?thesis using no_entries_iff [of ws ids] by (simp add: market_create_stocks_eq)
    next
      case False
      then have "matched ws ids \<noteq> [] \<or> leftover ws ids \<noteq> []"
        using no_entries_iff [of ws ids] by blast
      then have "(map (\<lambda>w. \<lparr>sku = Kod w, warehouseId = wh,
                              items = [\<lparr>item_count = quantity py w, item_type = ''FIT'',
                                        updatedAt = d1\<rparr>]\<rparr>) (matched ws ids) =
                  map (\<lambda>w. \<lparr>sku = Kod w, warehouseId = wh,
                              items = [\<lparr>item_count = quantity py w, item_type = ''FIT'',
                                        updatedAt = d2\<rparr>]\<rparr>) (matched ws ids) \<and>
                  map (\<lambda>i. \<lparr>sku = i, warehouseId = wh,
                              items = [\<lparr>item_count = 0, item_type = ''FIT'',
                                        updatedAt = d1\<rparr>]\<rparr>) (leftover ws ids) =
                  map (\<lambda>i. \<lparr>sku = i, warehouseId = wh,
                              items = [\<lparr>item_count = 0, item_type = ''FIT'',
                                        updatedAt = d2\<rparr>]\<rparr>) (leftover ws ids)) = (d1 = d2)"
        by (cases "matched ws ids"; cases "leftover ws ids") auto
      then show ?thesis using True False by (simp add: market_create_stocks_eq)
    qed
  qed
  from a b show ?thesis by simp
qed

text \<open>
  C5 as stated fails in the market module: two runs on the scenario's row and offers, one
  minute apart, give lists that differ as multisets.
\<close>

theorem create_stocks_twice_stamp_differs:
  "market_create_stocks py_default ''2024-01-01T00:00:00Z'' [scenario_row] scenario_offers ''w1'' =
     Inr ([\<lparr>sku = ''A'', warehouseId = ''w1'',
            items = [\<lparr>item_count = 100, item_type = ''FIT'',
                      updatedAt = ''2024-01-01T00:00:00Z''\<rparr>]\<rparr>,
           \<lparr>sku = ''B'', warehouseId = ''w1'',
            items = [\<lparr>item_count = 0, item_type = ''FIT'',
                      updatedAt = ''2024-01-01T00:00:00Z''\<rparr>]\<rparr>,
           \<lparr>sku = ''C'', warehouseId = ''w1'',
            items = [\<lparr>item_count = 0, item_type = ''FIT'',
                      updatedAt = ''2024-01-01T00:00:00Z''\<rparr>]\<rparr>], [''B'', ''C'']) \<and>
   market_create_stocks py_default ''2024-01-01T00:01:00Z'' [scenario_row] scenario_offers ''w1'' =
     Inr ([\<lparr>sku = ''A'', warehouseId = ''w1'',
            items = [\<lparr>item_count = 100, item_type = ''FIT'',
                      updatedAt = ''2024-01-01T00:01:00Z''\<rparr>]\<rparr>,
           \<lparr>sku = ''B'', warehouseId = ''w1'',
            items = [\<lparr>item_count = 0, item_type = ''FIT'',
                      updatedAt = ''2024-01-01T00:01:00Z''\<rparr>]\<rparr>,
           \<lparr>sku = ''C'', warehouseId = ''w1'',
            items = [\<lparr>item_count = 0, item_type = ''FIT'',
                      updatedAt = ''2024-01-01T00:01:00Z''\<rparr>]\<rparr>], [''B'', ''C'']) \<and>
   mset [\<lparr>sku = ''A'', warehouseId = ''w1'',
          items = [\<lparr>item_count = 100, item_type = ''FIT'',
                    updatedAt = ''2024-01-01T00:00:00Z''\<rparr>]\<rparr>,
         \<lparr>sku = ''B'', warehouseId = ''w1'',
          items = [\<lparr>item_count = 0, item_type = ''FIT'',
                    updatedAt = ''2024-01-01T00:00:00Z''\<rparr>]\<rparr>,
         \<lparr>sku = ''C'', warehouseId = ''w1'',
          items = [\<lparr>item_count = 0, item_type = ''FIT'',
                    updatedAt = ''2024-01-01T00:00:00Z''\<rparr>]\<rparr>] \<noteq>
   mset [\<lparr>sku = ''A'', warehouseId = ''w1'',
          items = [\<lparr>item_count = 100, item_type = ''FIT'',
                    updatedAt = ''2024-01-01T00:01:00Z''\<rparr>]\<rparr>,
         \<lparr>sku = ''B'', warehouseId = ''w1'',
          items = [\<lparr>item_count = 0, item_type = ''FIT'',
                    updatedAt = ''2024-01-01T00:01:00Z''\<rparr>]\<rparr>,
         \<lparr>sku = ''C'', warehouseId = ''w1'',
          items = [\<lparr>item_count = 0, item_type = ''FIT'',
                    updatedAt = ''2024-01-01T00:01:00Z''\<rparr>]\<rparr>]"
proof -
  have run: "market_create_stocks py_default d [scenario_row] scenario_offers ''w1'' =
     Inr ([\<lparr>sku = ''A'', warehouseId = ''w1'',
            items = [\<lparr>item_count = 100, item_type = ''FIT'', updatedAt = d\<rparr>]\<rparr>,
           \<lparr>sku = ''B'', warehouseId = ''w1'',
            items = [\<lparr>item_count = 0, item_type = ''FIT'', updatedAt = d\<rparr>]\<rparr>,
           \<lparr>sku = ''C'', warehouseId = ''w1'',
            items = [\<lparr>item_count = 0, item_type = ''FIT'', updatedAt = d\<rparr>]\<rparr>],
          [''B'', ''C''])" for d
    by (simp add: market_create_stocks_def scenario_row_def scenario_offers_def stock_of_count_def)
  have diff: "mset [\<lparr>sku = ''A'', warehouseId = ''w1'',
          items = [\<lparr>item_count = 100, item_type = ''FIT'',
                    updatedAt = ''2024-01-01T00:00:00Z''\<rparr>]\<rparr>,
         \<lparr>sku = ''B'', warehouseId = ''w1'',
          items = [\<lparr>item_count = 0, item_type = ''FIT'',
                    updatedAt = ''2024-01-01T00:00:00Z''\<rparr>]\<rparr>,
         \<lparr>sku = ''C'', warehouseId = ''w1'',
          items = [\<lparr>item_count = 0, item_type = ''FIT'',
                    updatedAt = ''2024-01-01T00:00:00Z''\<rparr>]\<rparr>] \<noteq>
   mset [\<lparr>sku = ''A'', warehouseId = ''w1'',
          items = [\<lparr>item_count = 100, item_type = ''FIT'',
                    updatedAt = ''2024-01-01T00:01:00Z''\<rparr>]\<rparr>,
         \<lparr>sku = ''B'', warehouseId = ''w1'',
          items = [\<lparr>item_count = 0, item_type = ''FIT'',
                    updatedAt = ''2024-01-01T00:01:00Z''\<rparr>]\<rparr>,
         \<lparr>sku = ''C'', warehouseId = ''w1'',
          items = [\<lparr>item_count = 0, item_type = ''FIT'',
                    updatedAt = ''2024-01-01T00:01:00Z''\<rparr>]\<rparr>]"
    (is "mset ?l1 \<noteq> mset ?l2")
  proof
    assume "mset ?l1 = mset ?l2"
    then have "set ?l1 = set ?l2" by (rule mset_eq_setD)
    moreover have "hd ?l1 \<in> set ?l1" by simp
    moreover have "hd ?l1 \<notin> set ?l2" by simp
    ultimately show False by blast
  qed
  from run [of "''2024-01-01T00:00:00Z''"] run [of "''2024-01-01T00:01:00Z''"] diff
  show ?thesis by blast
qed

subsection \<open>The two main\<close>

lemma divide_small:
  assumes "xs \<noteq> []" "int (length xs) \<le> n"
  shows "divide xs n = Inr [xs]"
proof -
  have n: "0 < n" using assms by (cases xs) auto
  have "(length xs - 1) div nat n = 0" using assms n by (cases xs) auto
  then have "blocks xs (nat n) = [xs]" using assms by (simp add: blocks_def)
  then show ?thesis using divide_blocks [OF n, of xs] by simp
qed

lemma divide_nil: "0 < n \<Longrightarrow> divide [] n = Inr []"
  by (simp add: divide_blocks blocks_def)

text \<open>
  C7. The scenario run through both \<open>main\<close>. The stock updates are A = 100, B = 0, C = 0
  (per campaign in the market module). The price updates are none: seller.main hands
  \<open>create_prices\<close> the list from which \<open>create_stocks\<close> has removed A, and market.main
  never runs \<open>upload_prices\<close>. Run on their own, both \<open>upload_prices\<close> send the one price
  update for A, with price 100.
\<close>

theorem main_scenario_runs:
  "seller_main py scenario_seller =
     \<lparr>stocks_sent = [[\<lparr>stock_offer_id = ''A'', stock = 100\<rparr>, \<lparr>stock_offer_id = ''B'', stock = 0\<rparr>,
                      \<lparr>stock_offer_id = ''C'', stock = 0\<rparr>]],
      prices_sent = [], ending = Completed\<rparr> \<and>
   market_main py scenario_market =
     \<lparr>market_stocks_sent =
        [(''fbs'',
          [\<lparr>sku = ''A'', warehouseId = ''w1'',
             items = [\<lparr>item_count = 100, item_type = ''FIT'',
                       updatedAt = ''2024-01-01T00:00:00Z''\<rparr>]\<rparr>,
           \<lparr>sku = ''B'', warehouseId = ''w1'',
             items = [\<lparr>item_count = 0, item_type = ''FIT'',
                       updatedAt = ''2024-01-01T00:00:00Z''\<rparr>]\<rparr>,
           \<lparr>sku = ''C'', warehouseId = ''w1'',
             items = [\<lparr>item_count = 0, item_type = ''FIT'',
                       updatedAt = ''2024-01-01T00:00:00Z''\<rparr>]\<rparr>]),
         (''dbs'',
          [\<lparr>sku = ''A'', warehouseId = ''w2'',
             items = [\<lparr>item_count = 100, item_type = ''FIT'',
                       updatedAt = ''2024-01-01T00:00:01Z''\<rparr>]\<rparr>,
           \<lparr>sku = ''B'', warehouseId = ''w2'',
             items = [\<lparr>item_count = 0, item_type = ''FIT'',
                       updatedAt = ''2024-01-01T00:00:01Z''\<rparr>]\<rparr>,
           \<lparr>sku = ''C'', warehouseId = ''w2'',
             items = [\<lparr>item_count = 0, item_type = ''FIT'',
                       updatedAt = ''2024-01-01T00:00:01Z''\<rparr>]\<rparr>])],
      market_prices_sent = [], market_ending = Completed\<rparr> \<and>
   seller_upload_prices scenario_seller [scenario_row] =
     ([[\<lparr>auto_action_enabled = ''UNKNOWN'', currency_code = ''RUB'',
         price_offer_id = ''A'', old_price = ''0'', price = ''100''\<rparr>]],
      Inr [\<lparr>auto_action_enabled = ''UNKNOWN'', currency_code = ''RUB'',
            price_offer_id = ''A'', old_price = ''0'', price = ''100''\<rparr>]) \<and>
   market_upload_prices py scenario_market [scenario_row] ''fbs'' =
     ([(''fbs'', [\<lparr>price_id = ''A'',
                   price_body = \<lparr>price_value = 100, currencyId = ''RUR''\<rparr>\<rparr>])],
      Inr [\<lparr>price_id = ''A'', price_body = \<lparr>price_value = 100, currencyId = ''RUR''\<rparr>\<rparr>])"
proof -
  have st: "seller_create_stocks py [scenario_row] scenario_offers =
     Inr ([\<lparr>stock_offer_id = ''A'', stock = 100\<rparr>, \<lparr>stock_offer_id = ''B'', stock = 0\<rparr>,
           \<lparr>stock_offer_id = ''C'', stock = 0\<rparr>], [''B'', ''C''])"
    by (simp add: seller_create_stocks_def scenario_row_def scenario_offers_def stock_of_count_def)
  have pr: "seller_create_prices [scenario_row] [''B'', ''C''] = Inr ([], [''B'', ''C''])"
    by (simp add: seller_create_prices_def scenario_row_def)
  have a: "seller_main py scenario_seller =
     \<lparr>stocks_sent = [[\<lparr>stock_offer_id = ''A'', stock = 100\<rparr>, \<lparr>stock_offer_id = ''B'', stock = 0\<rparr>,
                      \<lparr>stock_offer_id = ''C'', stock = 0\<rparr>]],
      prices_sent = [], ending = Completed\<rparr>"
    by (simp add: seller_main_def seller_main_try_def scenario_seller_def st pr
        divide_small divide_nil)
  have mst: "market_create_stocks py d [scenario_row] scenario_offers w =
     Inr ([\<lparr>sku = ''A'', warehouseId = w,
            items = [\<lparr>item_count = 100, item_type = ''FIT'', updatedAt = d\<rparr>]\<rparr>,
           \<lparr>sku = ''B'', warehouseId = w,
            items = [\<lparr>item_count = 0, item_type = ''FIT'', updatedAt = d\<rparr>]\<rparr>,
           \<lparr>sku = ''C'', warehouseId = w,
            items = [\<lparr>item_count = 0, item_type = ''FIT'', updatedAt = d\<rparr>]\<rparr>],
          [''B'', ''C''])" for d w
    by (simp add: market_create_stocks_def scenario_row_def scenario_offers_def stock_of_count_def)
  have b: "market_main py scenario_market =
     \<lparr>market_stocks_sent =
        [(''fbs'',
          [\<lparr>sku = ''A'', warehouseId = ''w1'',
             items = [\<lparr>item_count = 100, item_type = ''FIT'',
                       updatedAt = ''2024-01-01T00:00:00Z''\<rparr>]\<rparr>,
           \<lparr>sku = ''B'', warehouseId = ''w1'',
             items = [\<lparr>item_count = 0, item_type = ''FIT'',
                       updatedAt = ''2024-01-01T00:00:00Z''\<rparr>]\<rparr>,
           \<lparr>sku = ''C'', warehouseId = ''w1'',
             items = [\<lparr>item_count = 0, item_type = ''FIT'',
                       updatedAt = ''2024-01-01T00:00:00Z''\<rparr>]\<rparr>]),
         (''dbs'',
          [\<lparr>sku = ''A'', warehouseId = ''w2'',
             items = [\<lparr>item_count = 100, item_type = ''FIT'',
                       updatedAt = ''2024-01-01T00:00:01Z''\<rparr>]\<rparr>,
           \<lparr>sku = ''B'', warehouseId = ''w2'',
             items = [\<lparr>item_count = 0, item_type = ''FIT'',
                       updatedAt = ''2024-01-01T00:00:01Z''\<rparr>]\<rparr>,
           \<lparr>sku = ''C'', warehouseId = ''w2'',
             items = [\<lparr>item_count = 0, item_type = ''FIT'',
                       updatedAt = ''2024-01-01T00:00:01Z''\<rparr>]\<rparr>])],
      market_prices_sent = [], market_ending = Completed\<rparr>"
    by (simp add: market_main_def market_main_try_def market_campaign_block_def
        scenario_market_def mst divide_small)
  have spr: "seller_create_prices [scenario_row] scenario_offers =
     Inr ([\<lparr>auto_action_enabled = ''UNKNOWN'', currency_code = ''RUB'',
            price_offer_id = ''A'', old_price = ''0'', price = ''100''\<rparr>], scenario_offers)"
    by (simp add: seller_create_prices_def scenario_row_def scenario_offers_def
        price_conversion_def py_split_def is_digit_def)
  have c: "seller_upload_prices scenario_seller [scenario_row] =
     ([[\<lparr>auto_action_enabled = ''UNKNOWN'', currency_code = ''RUB'',
         price_offer_id = ''A'', old_price = ''0'', price = ''100''\<rparr>]],
      Inr [\<lparr>auto_action_enabled = ''UNKNOWN'', currency_code = ''RUB'',
            price_offer_id = ''A'', old_price = ''0'', price = ''100''\<rparr>])"
    by (simp add: seller_upload_prices_def scenario_seller_def spr divide_small)
  have i100: "py_int py ''100'' = Some 100"
    by (simp add: py_int_def ascii_int_def unsigned_int_def over_limit_def py_strip_def
        py_isspace_def is_digit_def digit_value_def is_ascii_def)
  have mpr: "market_create_prices py [scenario_row] scenario_offers =
     Inr ([\<lparr>price_id = ''A'', price_body = \<lparr>price_value = 100, currencyId = ''RUR''\<rparr>\<rparr>],
          scenario_offers)"
    using i100 by (simp add: market_create_prices_def scenario_row_def scenario_offers_def
        price_conversion_def py_split_def is_digit_def)
  have d: "market_upload_prices py scenario_market [scenario_row] ''fbs'' =
     ([(''fbs'', [\<lparr>price_id = ''A'',
                   price_body = \<lparr>price_value = 100, currencyId = ''RUR''\<rparr>\<rparr>])],
      Inr [\<lparr>price_id = ''A'', price_body = \<lparr>price_value = 100, currencyId = ''RUR''\<rparr>\<rparr>])"
    by (simp add: market_upload_prices_def scenario_market_def mpr divide_small)
  from a b c d show ?thesis by blast
qed

lemma seller_main_never_escapes: "ending (seller_main py r) \<noteq> Escaped e"
  by (simp add: seller_main_def split: prod.splits option.splits)

lemma market_main_escapes_iff:
  "(market_ending (market_main py r) = Escaped e) = (market_download_stock r = Inl e)"
  by (simp add: market_main_def split: sum.splits prod.splits option.splits)

text \<open>
  C8. Where exceptions end. No exception leaves seller.main: whatever the \<open>try\<close> block
  raises is caught by the first clause that fits it. An exception leaves market.main
  exactly when \<open>download_stock\<close> raises it, since that call stands before the \<open>try\<close>; a
  connection error of the download is caught in seller.main and escapes from market.main.
\<close>

theorem main_error_handling:
  "market_main py (scenario_market\<lparr>market_download_stock := Inl ConnectionError\<rparr>) =
     \<lparr>market_stocks_sent = [], market_prices_sent = [],
      market_ending = Escaped ConnectionError\<rparr> \<and>
   seller_main py (scenario_seller\<lparr>seller_download_stock := Inl ConnectionError\<rparr>) =
     \<lparr>stocks_sent = [], prices_sent = [],
      ending = Caught ConnectionErrorClause ConnectionError\<rparr> \<and>
   (market_ending (market_main py mr) = Escaped e) = (market_download_stock mr = Inl e) \<and>
   ending (seller_main py sr) \<noteq> Escaped e"
proof -
  have a: "market_main py (scenario_market\<lparr>market_download_stock := Inl ConnectionError\<rparr>) =
     \<lparr>market_stocks_sent = [], market_prices_sent = [],
      market_ending = Escaped ConnectionError\<rparr>"
    by (simp add: market_main_def scenario_market_def)
  have b: "seller_main py (scenario_seller\<lparr>seller_download_stock := Inl ConnectionError\<rparr>) =
     \<lparr>stocks_sent = [], prices_sent = [],
      ending = Caught ConnectionErrorClause ConnectionError\<rparr>"
    by (simp add: seller_main_def seller_main_try_def scenario_seller_def)
  from a b market_main_escapes_iff [of py mr e] seller_main_never_escapes [of py sr e]
  show ?thesis by blast
qed

lemma no_row_in_leftover:
  assumes "distinct ids"
  shows "filter (\<lambda>w. Kod w \<in> set (leftover ws ids)) ws = []"
  using assms by (auto simp: filter_empty_conv leftover_distinct)

lemma prices_after_stocks:
  assumes "distinct ids"
  shows "seller_create_prices ws (leftover ws ids) = Inr ([], leftover ws ids)"
  by (simp add: seller_create_prices_eq no_row_in_leftover [OF assms])

lemma seller_main_no_prices:
  assumes "seller_get_offer_ids r = Inr ids" "distinct ids"
  shows "prices_sent (seller_main py r) = []"
proof -
  have d: "divide ([] :: seller_price list) 900 = Inr []" by (simp add: divide_nil)
  have "snd (fst (seller_main_try py r)) = []"
    unfolding seller_main_try_def
    using assms(1) prices_after_stocks [OF assms(2)] d
    by (auto simp: seller_create_stocks_eq split: sum.splits prod.splits option.splits)
  then show ?thesis
    by (cases "seller_main_try py r") (auto simp: seller_main_def split: option.splits)
qed

lemma market_main_no_prices: "market_prices_sent (market_main py r) = []"
  by (simp add: market_main_def split: sum.splits prod.splits option.splits)

text \<open>
  C9, as amended. For a duplicate-free offer list, \<open>create_stocks\<close> (in either module)
  leaves in the caller's list exactly the identifiers that no inventory row carries, which
  are the identifiers of its zero entries; \<open>create_prices\<close> on the list so left emits
  nothing, hence seller.main sends no price update at all. market.main sends none either.
\<close>

theorem stocks_pass_consumes_offers:
  assumes "distinct ids"
  shows
  "(seller_create_stocks py ws ids = Inr (stocks, left) \<longrightarrow>
      left = filter (\<lambda>i. i \<notin> Kod ` set ws) ids \<and>
      stocks = map (\<lambda>w. \<lparr>stock_offer_id = Kod w, stock = quantity py w\<rparr>) (matched ws ids) @
               map (\<lambda>i. \<lparr>stock_offer_id = i, stock = 0\<rparr>) left \<and>
      seller_create_prices ws left = Inr ([], left)) \<and>
   (market_create_stocks py date ws ids wh = Inr (mstocks, mleft) \<longrightarrow>
      mleft = filter (\<lambda>i. i \<notin> Kod ` set ws) ids \<and>
      mstocks =
        map (\<lambda>w. \<lparr>sku = Kod w, warehouseId = wh,
                   items = [\<lparr>item_count = quantity py w, item_type = ''FIT'',
                             updatedAt = date\<rparr>]\<rparr>) (matched ws ids) @
        map (\<lambda>i. \<lparr>sku = i, warehouseId = wh,
                   items = [\<lparr>item_count = 0, item_type = ''FIT'', updatedAt = date\<rparr>]\<rparr>)
          mleft) \<and>
   (seller_get_offer_ids r = Inr ids \<longrightarrow> prices_sent (seller_main py r) = []) \<and>
   market_prices_sent (market_main py mr) = []"
proof -
  have a: "left = filter (\<lambda>i. i \<notin> Kod ` set ws) ids \<and>
      stocks = map (\<lambda>w. \<lparr>stock_offer_id = Kod w, stock = quantity py w\<rparr>) (matched ws ids) @
               map (\<lambda>i. \<lparr>stock_offer_id = i, stock = 0\<rparr>) left \<and>
      seller_create_prices ws left = Inr ([], left)"
    if run: "seller_create_stocks py ws ids = Inr (stocks, left)"
  proof -
    from run have l: "left = leftover ws ids"
      and st: "stocks =
          map (\<lambda>w. \<lparr>stock_offer_id = Kod w, stock = quantity py w\<rparr>) (matched ws ids) @
          map (\<lambda>i. \<lparr>stock_offer_id = i, stock = 0\<rparr>) (leftover ws ids)"
      by (auto simp: seller_create_stocks_eq split: if_splits)
    from l st leftover_distinct [OF assms, of ws] prices_after_stocks [OF assms, of ws]
    show ?thesis by simp
  qed
  have b: "mleft = filter (\<lambda>i. i \<notin> Kod ` set ws) ids \<and>
      mstocks =
        map (\<lambda>w. \<lparr>sku = Kod w, warehouseId = wh,
                   items = [\<lparr>item_count = quantity py w, item_type = ''FIT'',
                             updatedAt = date\<rparr>]\<rparr>) (matched ws ids) @
        map (\<lambda>i. \<lparr>sku = i, warehouseId = wh,
                   items = [\<lparr>item_count = 0, item_type = ''FIT'', updatedAt = date\<rparr>]\<rparr>)
          mleft"
    if run: "market_create_stocks py date ws ids wh = Inr (mstocks, mleft)"
  proof -
    from run have l: "mleft = leftover ws ids"
      and st: "mstocks =
        map (\<lambda>w. \<lparr>sku = Kod w, warehouseId = wh,
                   items = [\<lparr>item_count = quantity py w, item_type = ''FIT'',
                             updatedAt = date\<rparr>]\<rparr>) (matched ws ids) @
        map (\<lambda>i. \<lparr>sku = i, warehouseId = wh,
                   items = [\<lparr>item_count = 0, item_type = ''FIT'', updatedAt = date\<rparr>]\<rparr>)
          (leftover ws ids)"
      by (auto simp: market_create_stocks_eq split: if_splits)
    from l st leftover_distinct [OF assms, of ws] show ?thesis by simp
  qed
  have c: "seller_get_offer_ids r = Inr ids \<longrightarrow> prices_sent (seller_main py r) = []"
    using seller_main_no_prices [OF _ assms] by blast
  from a b c market_main_no_prices [of py mr] show ?thesis by blast
qed

theorem stocks_pass_consumes_offers_witness:
  "seller_create_stocks py_default [scenario_row] scenario_offers =
     Inr ([\<lparr>stock_offer_id = ''A'', stock = 100\<rparr>, \<lparr>stock_offer_id = ''B'', stock = 0\<rparr>,
           \<lparr>stock_offer_id = ''C'', stock = 0\<rparr>], [''B'', ''C'']) \<and>
   seller_create_prices [scenario_row] [''B'', ''C''] = Inr ([], [''B'', ''C'']) \<and>
   prices_sent (seller_main py_default scenario_seller) = []"
proof -
  have d: "distinct scenario_offers" by (simp add: scenario_offers_def)
  have run: "seller_create_stocks py_default [scenario_row] scenario_offers =
     Inr ([\<lparr>stock_offer_id = ''A'', stock = 100\<rparr>, \<lparr>stock_offer_id = ''B'', stock = 0\<rparr>,
           \<lparr>stock_offer_id = ''C'', stock = 0\<rparr>], [''B'', ''C''])"
    by (simp add: seller_create_stocks_def scenario_row_def scenario_offers_def stock_of_count_def)
  have g: "seller_get_offer_ids scenario_seller = Inr scenario_offers"
    by (simp add: scenario_seller_def)
  from stocks_pass_consumes_offers
         [OF d, of py_default "[scenario_row]" _ "[''B'', ''C'']" _ _ _ _ scenario_seller] run g
  show ?thesis by blast
qed

text \<open>
  C9 as stated fails when an identifier occurs twice in the offer list: \<open>list.remove\<close> takes
  out one occurrence, the matched code stays in the list, and seller.main sends a price
  update for it.
\<close>

theorem stocks_pass_duplicate_offer:
  "seller_create_stocks py_default [scenario_row] [''A'', ''A''] =
     Inr ([\<lparr>stock_offer_id = ''A'', stock = 100\<rparr>, \<lparr>stock_offer_id = ''A'', stock = 0\<rparr>],
          [''A'']) \<and>
   seller_main py_default (scenario_seller\<lparr>seller_get_offer_ids := Inr [''A'', ''A'']\<rparr>) =
     \<lparr>stocks_sent = [[\<lparr>stock_offer_id = ''A'', stock = 100\<rparr>, \<lparr>stock_offer_id = ''A'', stock = 0\<rparr>]],
      prices_sent = [[\<lparr>auto_action_enabled = ''UNKNOWN'', currency_code = ''RUB'',
                       price_offer_id = ''A'', old_price = ''0'', price = ''100''\<rparr>]],
      ending = Completed\<rparr>"
proof -
  have st: "seller_create_stocks py_default [scenario_row] [''A'', ''A''] =
     Inr ([\<lparr>stock_offer_id = ''A'', stock = 100\<rparr>, \<lparr>stock_offer_id = ''A'', stock = 0\<rparr>],
          [''A''])"
    by (simp add: seller_create_stocks_def scenario_row_def stock_of_count_def)
  have pr: "seller_create_prices [scenario_row] [''A''] =
     Inr ([\<lparr>auto_action_enabled = ''UNKNOWN'', currency_code = ''RUB'',
            price_offer_id = ''A'', old_price = ''0'', price = ''100''\<rparr>], [''A''])"
    by (simp add: seller_create_prices_def scenario_row_def
        price_conversion_def py_split_def is_digit_def)
  have "seller_main py_default (scenario_seller\<lparr>seller_get_offer_ids := Inr [''A'', ''A'']\<rparr>) =
     \<lparr>stocks_sent = [[\<lparr>stock_offer_id = ''A'', stock = 100\<rparr>, \<lparr>stock_offer_id = ''A'', stock = 0\<rparr>]],
      prices_sent = [[\<lparr>auto_action_enabled = ''UNKNOWN'', currency_code = ''RUB'',
                       price_offer_id = ''A'', old_price = ''0'', price = ''100''\<rparr>]],
      ending = Completed\<rparr>"
    by (simp add: seller_main_def seller_main_try_def scenario_seller_def st pr divide_small)
  with st show ?thesis by blast
qed

end
